theory Spec2Isabelle
  imports Complex_Main
begin

section \<open>JavaScript values\<close>

text \<open>
  The gateway (\<^verbatim>\<open>src/index.js\<close>) is an Express application: every handler
  receives the parsed JSON body of a request. A JSON value is modelled by the datatype
  \<open>json\<close>; a JavaScript value that may be \<^verbatim>\<open>undefined\<close> (a missing property,
  a missing header) is a \<open>json option\<close> with \<open>None\<close> for \<^verbatim>\<open>undefined\<close>.
  A number is the exact rational value of the double that the body parser has read;
  where the handlers compute with numbers, the result is rounded as IEEE 754 rounds it
  (\<open>js_times\<close> below).
  A string is a list of characters, and its length is the number of its characters.
  An object is the list of its properties in order; each key occurs once in a parsed
  body, and a property is read with \<open>map_of\<close>.
\<close>

datatype json =
    JNull
  | JBool bool
  | JNum rat
  | JStr string
  | JArr "json list"
  | JObj "(string \<times> json) list"

text \<open>JavaScript truthiness, as \<^verbatim>\<open>!x\<close> and \<^verbatim>\<open>x || y\<close> test it.\<close>

fun truthy :: "json option \<Rightarrow> bool" where
  "truthy None = False"
| "truthy (Some JNull) = False"
| "truthy (Some (JBool b)) = b"
| "truthy (Some (JNum n)) = (n \<noteq> 0)"
| "truthy (Some (JStr s)) = (s \<noteq> [])"
| "truthy (Some (JArr xs)) = True"
| "truthy (Some (JObj fs)) = True"

text \<open>Reading a property \<^verbatim>\<open>v.k\<close> of a parsed body (own data properties only).\<close>

definition property :: "json option \<Rightarrow> string \<Rightarrow> json option" where
  "property v k = (case v of Some (JObj fs) \<Rightarrow> map_of fs k | _ \<Rightarrow> None)"

fun join_comma :: "string list \<Rightarrow> string" where
  "join_comma [] = []"
| "join_comma [s] = s"
| "join_comma (s # t # ss) = s @ '','' @ join_comma (t # ss)"

text \<open>
  The string that \<^verbatim>\<open>'prefix' + v\<close> appends for a value \<open>v\<close>, or \<open>None\<close>
  when the conversion throws a TypeError. An object of a parsed body is converted by
  \<^verbatim>\<open>Object.prototype.toString\<close>, unless it has a key \<^verbatim>\<open>toString\<close> of its own:
  the value of that key is no function, and the conversion throws. An array joins the
  conversions of its elements. The decimal text of a number is the runtime's business
  and is taken as the parameter \<open>num\<close>.
\<close>

fun ToString_json :: "(rat \<Rightarrow> string) \<Rightarrow> json \<Rightarrow> string option" where
  "ToString_json num JNull = Some ''null''"
| "ToString_json num (JBool b) = Some (if b then ''true'' else ''false'')"
| "ToString_json num (JNum n) = Some (num n)"
| "ToString_json num (JStr s) = Some s"
| "ToString_json num (JArr xs) =
     map_option join_comma
       (those (map (\<lambda>x. if x = JNull then Some [] else ToString_json num x) xs))"
| "ToString_json num (JObj fs) =
     (if ''toString'' \<in> set (map fst fs) then None else Some ''[object Object]'')"

definition ToString :: "(rat \<Rightarrow> string) \<Rightarrow> json option \<Rightarrow> string option" where
  "ToString num v = (case v of None \<Rightarrow> Some ''undefined'' | Some j \<Rightarrow> ToString_json num j)"

text \<open>
  An object literal whose property values may be \<^verbatim>\<open>undefined\<close>, as JSON keeps
  it: a property with the value \<^verbatim>\<open>undefined\<close> is left out.
\<close>

definition object_literal :: "(string \<times> json option) list \<Rightarrow> (string \<times> json) list" where
  "object_literal ps = concat (map (\<lambda>(k, v). case v of None \<Rightarrow> [] | Some j \<Rightarrow> [(k, j)]) ps)"

text \<open>
  The product \<^verbatim>\<open>x * y\<close> of two numbers: the exact product, rounded to the nearest
  double, ties to the even significand. A double has a significand of 53 bits and, at
  the small end, a spacing of \<open>2 ^ -1074\<close>; \<open>floor_log2 x\<close> is the exponent of the
  highest bit of \<open>x\<close>. The operands are doubles already, and rounding them changes
  nothing; with it, a number written in decimal stands for the double that the parser
  reads. Products beyond the largest double do not occur: the handlers multiply by 1000
  numbers of at most 9007199254740991.
\<close>

function bit_length :: "int \<Rightarrow> nat" where
  "bit_length n = (if n \<le> 0 then 0 else Suc (bit_length (n div 2)))"
  by pat_completeness auto
termination by (relation "measure nat") auto

definition pow2 :: "int \<Rightarrow> rat" where
  "pow2 q = (if q \<ge> 0 then 2 ^ nat q else 1 / 2 ^ nat (- q))"

definition floor_log2 :: "rat \<Rightarrow> int" where
  "floor_log2 x =
     (case quotient_of \<bar>x\<bar> of
        (a, b) \<Rightarrow>
          (let e = int (bit_length a) - int (bit_length b)
           in if pow2 e \<le> \<bar>x\<bar> then e else e - 1))"

definition round_half_even :: "rat \<Rightarrow> int" where
  "round_half_even y =
     (let f = \<lfloor>y\<rfloor>; d = y - of_int f
      in if d < 1 / 2 then f else if d > 1 / 2 then f + 1 else if even f then f else f + 1)"

definition to_double :: "rat \<Rightarrow> rat" where
  "to_double x =
     (if x = 0 then 0
      else (let q = max (floor_log2 x - 52) (- 1074)
            in of_int (round_half_even (x / pow2 q)) * pow2 q))"

definition js_times :: "rat \<Rightarrow> rat \<Rightarrow> rat" where
  "js_times x y = to_double (to_double x * to_double y)"

section \<open>Readings, documents and the environment\<close>

text \<open>
  A reading is the value that \<^verbatim>\<open>telemetrySchema.validate\<close> returns: the fields
  of the Joi schema with the types the schema has checked.
\<close>

datatype timestamp_value = TsString string | TsNumber rat

record reading =
  deviceId :: string
  sensorType :: string
  val :: rat
  unit :: "string option"
  timestamp :: "timestamp_value option"
  location :: "string option"
  metadata :: "(string \<times> json) list option"

text \<open>The document literal that both ingest handlers pass to \<^verbatim>\<open>databases.createDocument\<close>.\<close>

record document =
  deviceId :: string
  sensorType :: string
  val :: rat
  unit :: string
  timestamp :: string
  location :: string
  isAnomalous :: bool
  ingestedAt :: string
  metadata :: "(string \<times> json) list"

text \<open>A thrown JavaScript error: its \<^verbatim>\<open>message\<close> and, for store errors, its numeric \<^verbatim>\<open>code\<close>.\<close>

datatype js_error = Error (message: string) (code: "int option")

text \<open>
  A signed token is symbolic: its claims and the key that signed it. A part of an
  \<^verbatim>\<open>Authorization\<close> header is either plain text or the compact form of a token.
\<close>

datatype jwt = Jwt (claims: "(string \<times> json) list") (signing_key: string)

datatype bearer_part = Plain string | Compact jwt

text \<open>
  Everything the handlers take from outside the repository: the process environment
  variables, the clock, the document store and the library functions whose text is not
  part of the source. The \<open>n\<close>-th reading of the clock is \<open>clock env n\<close>
  (milliseconds since the epoch); the store answers a call from the calls made before
  it and the document, with a document id or a thrown error.
\<close>

record env =
  JWT_SECRET :: "string option"
  DEVICE_SECRET_PREFIX :: "string option"
  JWT_EXPIRES_IN :: "string option"
  ms :: "string \<Rightarrow> rat option"
  clock :: "nat \<Rightarrow> int"
  store_reply :: "document list \<Rightarrow> document \<Rightarrow> js_error + string"
  toISOString :: "int \<Rightarrow> string"
  Number_toString :: "rat \<Rightarrow> string"
  joi_isoDate :: "string \<Rightarrow> string option"
  joi_number_from_string :: "string \<Rightarrow> (string + rat) option"
  joi_object_from_string :: "string \<Rightarrow> json option"

text \<open>
  The state a request changes: the calls of \<^verbatim>\<open>createDocument\<close> made so far,
  in order, and the number of clock readings taken.
\<close>

record world =
  calls :: "document list"
  clock_reads :: nat

definition Date_now :: "env \<Rightarrow> world \<Rightarrow> int \<times> world" where
  "Date_now env w = (clock env (clock_reads w), w\<lparr>clock_reads := Suc (clock_reads w)\<rparr>)"

definition createDocument :: "env \<Rightarrow> document \<Rightarrow> world \<Rightarrow> (js_error + string) \<times> world" where
  "createDocument env doc w = (store_reply env (calls w) doc, w\<lparr>calls := calls w @ [doc]\<rparr>)"

text \<open>
  \<^verbatim>\<open>process.env.X || d\<close>: the default \<open>d\<close> stands in for a variable that is
  not set or is empty.
\<close>

definition env_or :: "string option \<Rightarrow> string \<Rightarrow> string" where
  "env_or x d = (case x of None \<Rightarrow> d | Some s \<Rightarrow> if s = [] then d else s)"

text \<open>
  \<^verbatim>\<open>new Date(x)\<close> for a number \<open>x\<close>: the time value is clipped, so beyond
  8.64e15 ms the date is invalid (\<open>None\<close>); within, the fraction of a millisecond is
  cut off. \<^verbatim>\<open>toISOString\<close> of an invalid date throws a RangeError.
\<close>

definition new_Date :: "rat \<Rightarrow> int option" where
  "new_Date x =
     (if \<bar>x\<bar> > 8640000000000000 then None
      else Some (if x \<ge> 0 then \<lfloor>x\<rfloor> else \<lceil>x\<rceil>))"

definition Date_toISOString :: "env \<Rightarrow> int option \<Rightarrow> js_error + string" where
  "Date_toISOString env d =
     (case d of
        None \<Rightarrow> Inl (Error ''Invalid time value'' None)
      | Some t \<Rightarrow> Inr (toISOString env t))"

section \<open>Utilities of the gateway\<close>

definition allowedSensorTypes :: "string list" where
  "allowedSensorTypes =
     [''flow'', ''pressure'', ''temperature'', ''humidity'', ''ph'', ''turbidity'',
      ''dissolvedOxygen'', ''conductivity'']"

definition units :: "(string \<times> string) list" where
  "units =
     [(''flow'', ''L/min''),
      (''pressure'', ''bar''),
      (''temperature'', [CHR 0xC2, CHR 0xB0] @ ''C''),
      (''humidity'', ''%''),
      (''ph'', ''pH''),
      (''turbidity'', ''NTU''),
      (''dissolvedOxygen'', ''mg/L''),
      (''conductivity'', [CHR 0xCE, CHR 0xBC] @ ''S/cm'')]"

definition getUnit :: "string \<Rightarrow> string" where
  "getUnit type = (case map_of units type of Some u \<Rightarrow> u | None \<Rightarrow> ''unit'')"

text \<open>
  \<open>getUnit\<close> reads the table's own entries; after validation its argument is always one
  of \<open>allowedSensorTypes\<close>.
\<close>

section \<open>The Joi schemas\<close>

text \<open>
  The schemas are validated with Joi's defaults: the first error ends the validation,
  a key the schema does not name is an error, and strings are converted where the
  schema asks for another type. The conversions themselves (a numeric string to a
  number, JSON text to an object, the check and normal form of an ISO date) belong to
  Joi and are functions of the environment. For a string where a number is asked,
  \<open>joi_number_from_string\<close> answers \<open>None\<close> when the string is not the text of a
  number, the number when Joi converts it, and an error code when Joi refuses the
  conversion (\<^verbatim>\<open>number.unsafe\<close>: the text has more digits than a double keeps).
  A Joi error is kept as the path of the value and the error type; Joi derives the
  message from the two.
\<close>

datatype path_elem = Key string | Index nat

datatype joi_error = JoiError (path: "path_elem list") (kind: string)

definition joi_string :: "json \<Rightarrow> string + string" where
  "joi_string v =
     (case v of
        JStr s \<Rightarrow> if s = [] then Inl ''string.empty'' else Inr s
      | _ \<Rightarrow> Inl ''string.base'')"

definition joi_number :: "env \<Rightarrow> json \<Rightarrow> string + rat" where
  "joi_number env v =
     (case (case v of
              JStr s \<Rightarrow>
                (case joi_number_from_string env s of
                   None \<Rightarrow> Inr v
                 | Some (Inl e) \<Rightarrow> Inl e
                 | Some (Inr n) \<Rightarrow> Inr (JNum n))
            | _ \<Rightarrow> Inr v) of
        Inl e \<Rightarrow> Inl e
      | Inr (JNum n) \<Rightarrow>
          if n > 9007199254740991 \<or> n < - 9007199254740991 then Inl ''number.unsafe''
          else Inr n
      | Inr _ \<Rightarrow> Inl ''number.base'')"

definition joi_object :: "env \<Rightarrow> json \<Rightarrow> string + (string \<times> json) list" where
  "joi_object env v =
     (case (case v of
              JStr s \<Rightarrow> (case joi_object_from_string env s of Some j \<Rightarrow> j | None \<Rightarrow> v)
            | _ \<Rightarrow> v) of
        JObj fs \<Rightarrow> Inr fs
      | _ \<Rightarrow> Inl ''object.base'')"

text \<open>\<^verbatim>\<open>deviceId: Joi.string().required().min(1).max(100)\<close>\<close>

definition schema_deviceId :: "json option \<Rightarrow> string + string" where
  "schema_deviceId v =
     (case v of
        None \<Rightarrow> Inl ''any.required''
      | Some j \<Rightarrow>
          (case joi_string j of
             Inl e \<Rightarrow> Inl e
           | Inr s \<Rightarrow>
               if length s < 1 then Inl ''string.min''
               else if length s > 100 then Inl ''string.max''
               else Inr s))"

text \<open>\<^verbatim>\<open>sensorType: Joi.string().valid(...allowedSensorTypes).required()\<close>\<close>

definition schema_sensorType :: "json option \<Rightarrow> string + string" where
  "schema_sensorType v =
     (case v of
        None \<Rightarrow> Inl ''any.required''
      | Some (JStr s) \<Rightarrow> if s \<in> set allowedSensorTypes then Inr s else Inl ''any.only''
      | Some _ \<Rightarrow> Inl ''any.only'')"

text \<open>\<^verbatim>\<open>value: Joi.number().required().min(-1000).max(10000)\<close>\<close>

definition schema_value :: "env \<Rightarrow> json option \<Rightarrow> string + rat" where
  "schema_value env v =
     (case v of
        None \<Rightarrow> Inl ''any.required''
      | Some j \<Rightarrow>
          (case joi_number env j of
             Inl e \<Rightarrow> Inl e
           | Inr n \<Rightarrow>
               if n < - 1000 then Inl ''number.min''
               else if n > 10000 then Inl ''number.max''
               else Inr n))"

text \<open>\<^verbatim>\<open>unit: Joi.string().optional()\<close> and \<^verbatim>\<open>location: Joi.string().optional()\<close>\<close>

definition schema_optional_string :: "json option \<Rightarrow> string + string option" where
  "schema_optional_string v =
     (case v of
        None \<Rightarrow> Inr None
      | Some j \<Rightarrow> (case joi_string j of Inl e \<Rightarrow> Inl e | Inr s \<Rightarrow> Inr (Some s)))"

text \<open>
  \<^verbatim>\<open>timestamp: Joi.alternatives().try(Joi.string().isoDate(), Joi.number().positive()).optional()\<close>.
  The two alternatives are \<open>schema_isoDate\<close> and \<open>schema_positive\<close>; the first that
  accepts the value gives the result. When neither accepts, Joi chooses the error from
  the two failures: a failure whose code ends in \<^verbatim>\<open>.base\<close> says only that the type
  is wrong; if both are of that kind the error is \<^verbatim>\<open>alternatives.types\<close>, if one
  is not, that failure is reported as it is, and if neither is, the error is
  \<^verbatim>\<open>alternatives.match\<close>.
\<close>

definition schema_isoDate :: "env \<Rightarrow> json \<Rightarrow> string + string" where
  "schema_isoDate env j =
     (case joi_string j of
        Inl e \<Rightarrow> Inl e
      | Inr s \<Rightarrow> (case joi_isoDate env s of Some t \<Rightarrow> Inr t | None \<Rightarrow> Inl ''string.isoDate''))"

definition schema_positive :: "env \<Rightarrow> json \<Rightarrow> string + rat" where
  "schema_positive env j =
     (case joi_number env j of
        Inl e \<Rightarrow> Inl e
      | Inr n \<Rightarrow> if n > 0 then Inr n else Inl ''number.positive'')"

definition base_code :: "string \<Rightarrow> bool" where
  "base_code c = (dropWhile (\<lambda>x. x \<noteq> CHR ''.'') c = ''.base'')"

definition alternatives_error :: "string list \<Rightarrow> string" where
  "alternatives_error failures =
     (case filter (\<lambda>c. \<not> base_code c) failures of
        [] \<Rightarrow> ''alternatives.types''
      | [c] \<Rightarrow> c
      | _ \<Rightarrow> ''alternatives.match'')"

definition schema_timestamp :: "env \<Rightarrow> json option \<Rightarrow> string + timestamp_value option" where
  "schema_timestamp env v =
     (case v of
        None \<Rightarrow> Inr None
      | Some j \<Rightarrow>
          (case schema_isoDate env j of
             Inr t \<Rightarrow> Inr (Some (TsString t))
           | Inl e1 \<Rightarrow>
               (case schema_positive env j of
                  Inr n \<Rightarrow> Inr (Some (TsNumber n))
                | Inl e2 \<Rightarrow> Inl (alternatives_error [e1, e2]))))"

text \<open>\<^verbatim>\<open>metadata: Joi.object().optional()\<close>\<close>

definition schema_metadata :: "env \<Rightarrow> json option \<Rightarrow> string + (string \<times> json) list option" where
  "schema_metadata env v =
     (case v of
        None \<Rightarrow> Inr None
      | Some j \<Rightarrow> (case joi_object env j of Inl e \<Rightarrow> Inl e | Inr fs \<Rightarrow> Inr (Some fs)))"

definition telemetry_keys :: "string list" where
  "telemetry_keys =
     [''deviceId'', ''sensorType'', ''value'', ''unit'', ''timestamp'', ''location'', ''metadata'']"

text \<open>
  \<open>telemetrySchema env p j\<close> validates the value \<open>j\<close> found at path \<open>p\<close>: the keys
  in the order of the schema, then the keys the schema does not know.
\<close>

definition telemetrySchema :: "env \<Rightarrow> path_elem list \<Rightarrow> json \<Rightarrow> joi_error + reading" where
  "telemetrySchema env p j =
     (case joi_object env j of
        Inl e \<Rightarrow> Inl (JoiError p e)
      | Inr fs \<Rightarrow>
     (case schema_deviceId (map_of fs ''deviceId'') of
        Inl e \<Rightarrow> Inl (JoiError (p @ [Key ''deviceId'']) e)
      | Inr d \<Rightarrow>
     (case schema_sensorType (map_of fs ''sensorType'') of
        Inl e \<Rightarrow> Inl (JoiError (p @ [Key ''sensorType'']) e)
      | Inr st \<Rightarrow>
     (case schema_value env (map_of fs ''value'') of
        Inl e \<Rightarrow> Inl (JoiError (p @ [Key ''value'']) e)
      | Inr n \<Rightarrow>
     (case schema_optional_string (map_of fs ''unit'') of
        Inl e \<Rightarrow> Inl (JoiError (p @ [Key ''unit'']) e)
      | Inr u \<Rightarrow>
     (case schema_timestamp env (map_of fs ''timestamp'') of
        Inl e \<Rightarrow> Inl (JoiError (p @ [Key ''timestamp'']) e)
      | Inr ts \<Rightarrow>
     (case schema_optional_string (map_of fs ''location'') of
        Inl e \<Rightarrow> Inl (JoiError (p @ [Key ''location'']) e)
      | Inr l \<Rightarrow>
     (case schema_metadata env (map_of fs ''metadata'') of
        Inl e \<Rightarrow> Inl (JoiError (p @ [Key ''metadata'']) e)
      | Inr m \<Rightarrow>
     (case find (\<lambda>k. k \<notin> set telemetry_keys) (map fst fs) of
        Some k \<Rightarrow> Inl (JoiError (p @ [Key k]) ''object.unknown'')
      | None \<Rightarrow>
          Inr \<lparr>reading.deviceId = d, reading.sensorType = st, reading.val = n,
               reading.unit = u, reading.timestamp = ts, reading.location = l,
               reading.metadata = m\<rparr>)))))))))"

text \<open>
  \<^verbatim>\<open>readings: Joi.array().items(telemetrySchema).min(1).max(100).required()\<close>:
  the items are validated in order, before the two bounds on the length.
\<close>

fun schema_items :: "env \<Rightarrow> nat \<Rightarrow> json list \<Rightarrow> joi_error + reading list" where
  "schema_items env i [] = Inr []"
| "schema_items env i (x # xs) =
     (case telemetrySchema env [Key ''readings'', Index i] x of
        Inl e \<Rightarrow> Inl e
      | Inr r \<Rightarrow>
          (case schema_items env (Suc i) xs of
             Inl e \<Rightarrow> Inl e
           | Inr rs \<Rightarrow> Inr (r # rs)))"

definition bulkTelemetrySchema :: "env \<Rightarrow> json \<Rightarrow> joi_error + reading list" where
  "bulkTelemetrySchema env j =
     (case joi_object env j of
        Inl e \<Rightarrow> Inl (JoiError [] e)
      | Inr fs \<Rightarrow>
          (case map_of fs ''readings'' of
             None \<Rightarrow> Inl (JoiError [Key ''readings''] ''any.required'')
           | Some (JArr xs) \<Rightarrow>
               (case schema_items env 0 xs of
                  Inl e \<Rightarrow> Inl e
                | Inr rs \<Rightarrow>
                    if length rs < 1 then Inl (JoiError [Key ''readings''] ''array.min'')
                    else if length rs > 100 then Inl (JoiError [Key ''readings''] ''array.max'')
                    else (case find (\<lambda>k. k \<noteq> ''readings'') (map fst fs) of
                            Some k \<Rightarrow> Inl (JoiError [Key k] ''object.unknown'')
                          | None \<Rightarrow> Inr rs))
           | Some _ \<Rightarrow> Inl (JoiError [Key ''readings''] ''array.base'')))"

section \<open>Tokens\<close>

text \<open>
  \<^verbatim>\<open>jwt.sign\<close> and \<^verbatim>\<open>jwt.verify\<close> of the jsonwebtoken library, on symbolic
  tokens: a signature verifies exactly when the verifying key is the signing key.
  Signing needs a non-empty key and a time span that the \<^verbatim>\<open>ms\<close> package can read
  (in milliseconds); the expiry is counted from the payload's \<^verbatim>\<open>iat\<close>, which the
  handler always supplies.
\<close>

definition jwt_sign ::
  "env \<Rightarrow> (string \<times> json) list \<Rightarrow> string option \<Rightarrow> string \<Rightarrow> js_error + bearer_part" where
  "jwt_sign env payload secretOrPrivateKey expiresIn =
     (case secretOrPrivateKey of
        None \<Rightarrow> Inl (Error ''secretOrPrivateKey must have a value'' None)
      | Some k \<Rightarrow>
          if k = [] then Inl (Error ''secretOrPrivateKey must have a value'' None)
          else
            (case map_of payload ''iat'' of
               Some (JNum iat) \<Rightarrow>
                 (case ms env expiresIn of
                    None \<Rightarrow> Inl (Error ''expiresIn should be a number of seconds or a timespan'' None)
                  | Some lifetime \<Rightarrow>
                      Inr (Compact (Jwt (payload @ [(''exp'', JNum (of_int \<lfloor>iat + lifetime / 1000\<rfloor>))]) k)))
             | _ \<Rightarrow> Inl (Error ''iat should be a number of seconds'' None)))"

datatype jwt_error = JsonWebTokenError string | NotBeforeError | TokenExpiredError

definition jwt_verify ::
  "env \<Rightarrow> bearer_part \<Rightarrow> string option \<Rightarrow> world \<Rightarrow> (jwt_error + (string \<times> json) list) \<times> world" where
  "jwt_verify env token secretOrPublicKey w =
     (case Date_now env w of
        (now, w') \<Rightarrow>
          (let clockTimestamp = now div 1000 in
           (case token of
              Plain s \<Rightarrow> Inl (JsonWebTokenError ''jwt malformed'')
            | Compact (Jwt payload k) \<Rightarrow>
                if secretOrPublicKey = None \<or> secretOrPublicKey = Some []
                  then Inl (JsonWebTokenError ''secret or public key must be provided'')
                else if secretOrPublicKey \<noteq> Some k
                  then Inl (JsonWebTokenError ''invalid signature'')
                else
                  (case map_of payload ''nbf'' of
                     Some (JNum n) \<Rightarrow>
                       if n > of_int clockTimestamp then Inl NotBeforeError
                       else
                         (case map_of payload ''exp'' of
                            Some (JNum e) \<Rightarrow>
                              if of_int clockTimestamp \<ge> e then Inl TokenExpiredError
                              else Inr payload
                          | Some _ \<Rightarrow> Inl (JsonWebTokenError ''invalid exp value'')
                          | None \<Rightarrow> Inr payload)
                   | Some _ \<Rightarrow> Inl (JsonWebTokenError ''invalid nbf value'')
                   | None \<Rightarrow>
                       (case map_of payload ''exp'' of
                          Some (JNum e) \<Rightarrow>
                            if of_int clockTimestamp \<ge> e then Inl TokenExpiredError
                            else Inr payload
                        | Some _ \<Rightarrow> Inl (JsonWebTokenError ''invalid exp value'')
                        | None \<Rightarrow> Inr payload))),
           w'))"

section \<open>Responses\<close>

text \<open>
  A response is the status and the object given to \<^verbatim>\<open>res.json\<close>, one constructor
  for each shape the gateway sends:
  \<^item> \<open>ErrorJson status error code details\<close>, with \<open>details\<close> only for validation errors;
  \<^item> \<open>TokenJson status token expiresIn tokenType\<close>;
  \<^item> \<open>IngestJson status success documentId timestamp\<close>;
  \<^item> \<open>BulkJson status success processed failed results errors\<close>, where \<open>errors\<close> is
    \<open>None\<close> for \<^verbatim>\<open>undefined\<close>: the key is then left out of the JSON text.
  An entry of \<open>results\<close> is \<open>Result documentId timestamp sensorType\<close>, an entry of
  \<open>errors\<close> is \<open>Failure reading error\<close>.
\<close>

datatype bulk_result = Result string string string

datatype bulk_failure = Failure reading string

datatype response =
    ErrorJson nat string string "joi_error list option"
  | TokenJson nat bearer_part nat string
  | IngestJson nat bool string string
  | BulkJson nat bool nat nat "bulk_result list" "bulk_failure list option"

section \<open>Authentication\<close>

text \<open>
  What \<open>authenticateToken\<close> leaves on the request for the handler:
  \<^verbatim>\<open>req.deviceId\<close> and \<^verbatim>\<open>req.tokenExp\<close>.
\<close>

datatype auth = Auth (req_deviceId: "json option") (req_tokenExp: "json option")

text \<open>
  The \<^verbatim>\<open>Authorization\<close> header is given as the list of its parts between
  spaces, which is what \<^verbatim>\<open>authHeader.split(' ')\<close> returns; \<open>None\<close> is a request
  without the header. The token is the second part.
\<close>

definition authenticateToken ::
  "env \<Rightarrow> bearer_part list option \<Rightarrow> world \<Rightarrow> (response + auth) \<times> world" where
  "authenticateToken env authHeader w =
     (let token = (case authHeader of
                     None \<Rightarrow> None
                   | Some parts \<Rightarrow> if 1 < length parts then Some (parts ! 1) else None)
      in
        (case token of
           None \<Rightarrow> (Inl (ErrorJson 401 ''Access token required'' ''MISSING_TOKEN'' None), w)
         | Some t \<Rightarrow>
             if t = Plain []
               then (Inl (ErrorJson 401 ''Access token required'' ''MISSING_TOKEN'' None), w)
             else
               (case jwt_verify env t (JWT_SECRET env) w of
                  (Inl err, w') \<Rightarrow>
                    (Inl (ErrorJson 403 ''Invalid or expired token'' ''INVALID_TOKEN'' None), w')
                | (Inr decoded, w') \<Rightarrow>
                    (Inr (Auth (map_of decoded ''deviceId'') (map_of decoded ''exp'')), w'))))"

text \<open>
  \<^verbatim>\<open>POST /auth/token\<close>. The body may be missing: \<^verbatim>\<open>req.body || {}\<close>. Whatever
  is thrown inside the handler's \<^verbatim>\<open>try\<close>, by the concatenation or by
  \<^verbatim>\<open>jwt.sign\<close>, is answered by its \<^verbatim>\<open>catch\<close> with 500.
\<close>

definition auth_token :: "env \<Rightarrow> json option \<Rightarrow> world \<Rightarrow> response \<times> world" where
  "auth_token env body w =
     (let b = (if truthy body then body else Some (JObj []));
          deviceId = property b ''deviceId'';
          deviceSecret = property b ''deviceSecret''
      in
        if \<not> truthy deviceId \<or> \<not> truthy deviceSecret
          then (ErrorJson 400 ''Device ID and secret are required'' ''MISSING_CREDENTIALS'' None, w)
        else
          (case ToString (Number_toString env) deviceId of
             None \<Rightarrow>
               (ErrorJson 500 ''Internal server error'' ''TOKEN_GENERATION_ERROR'' None, w)
           | Some deviceIdText \<Rightarrow>
               (let expectedSecret = env_or (DEVICE_SECRET_PREFIX env) [] @ deviceIdText
                in
                  if deviceSecret \<noteq> Some (JStr expectedSecret)
                    then (ErrorJson 401 ''Invalid device credentials'' ''INVALID_CREDENTIALS'' None, w)
                  else
                    (case Date_now env w of
                       (now, w') \<Rightarrow>
                         (case jwt_sign env
                                 (object_literal
                                    [(''deviceId'', deviceId), (''type'', Some (JStr ''device'')),
                                     (''iat'', Some (JNum (of_int (now div 1000))))])
                                 (JWT_SECRET env)
                                 (env_or (JWT_EXPIRES_IN env) ''15m'') of
                            Inl e \<Rightarrow>
                              (ErrorJson 500 ''Internal server error'' ''TOKEN_GENERATION_ERROR'' None, w')
                          | Inr token \<Rightarrow> (TokenJson 200 token (60 * 15) ''Bearer'', w'))))))"

section \<open>Ingestion\<close>

text \<open>
  The statements both ingest handlers run on a validated reading whose device id has
  been checked (lines 174 to 199, and again 235 to 260). The timestamp: a number is
  taken as seconds, a missing (or empty) one is the current time, a string is kept.
\<close>

definition current_time :: "env \<Rightarrow> world \<Rightarrow> (js_error + string) \<times> world" where
  "current_time env w = (case Date_now env w of (t, w') \<Rightarrow> (Inr (toISOString env t), w'))"

definition normalize_timestamp ::
  "env \<Rightarrow> timestamp_value option \<Rightarrow> world \<Rightarrow> (js_error + string) \<times> world" where
  "normalize_timestamp env ts w =
     (case ts of
        Some (TsNumber n) \<Rightarrow> (Date_toISOString env (new_Date (js_times n 1000)), w)
      | Some (TsString s) \<Rightarrow> if s = [] then current_time env w else (Inr s, w)
      | None \<Rightarrow> current_time env w)"

definition store_reading ::
  "env \<Rightarrow> reading \<Rightarrow> world \<Rightarrow> (js_error + string \<times> string) \<times> world" where
  "store_reading env r w =
     (case normalize_timestamp env (reading.timestamp r) w of
        (Inl e, w1) \<Rightarrow> (Inl e, w1)
      | (Inr ts, w1) \<Rightarrow>
          (let u = (case reading.unit r of
                      None \<Rightarrow> getUnit (reading.sensorType r)
                    | Some x \<Rightarrow> if x = [] then getUnit (reading.sensorType r) else x);
               l = (case reading.location r of
                      None \<Rightarrow> ''unknown''
                    | Some x \<Rightarrow> if x = [] then ''unknown'' else x)
           in
             (case Date_now env w1 of
                (now, w2) \<Rightarrow>
                  (case createDocument env
                          \<lparr>deviceId = reading.deviceId r,
                           sensorType = reading.sensorType r,
                           val = reading.val r,
                           unit = u,
                           timestamp = ts,
                           location = l,
                           isAnomalous = False,
                           ingestedAt = toISOString env now,
                           metadata = (case reading.metadata r of None \<Rightarrow> [] | Some m \<Rightarrow> m)\<rparr>
                          w2 of
                     (Inl e, w3) \<Rightarrow> (Inl e, w3)
                   | (Inr document_id, w3) \<Rightarrow> (Inr (document_id, ts), w3)))))"

text \<open>The \<^verbatim>\<open>catch\<close> block of the single-reading handler.\<close>

definition ingest_catch :: "js_error \<Rightarrow> response" where
  "ingest_catch e =
     (if code e = Some 401 then ErrorJson 500 ''Database authentication failed'' ''DB_AUTH_ERROR'' None
      else if code e = Some 404 then ErrorJson 500 ''Database or collection not found'' ''DB_NOT_FOUND'' None
      else ErrorJson 500 ''Internal server error'' ''INGESTION_ERROR'' None)"

text \<open>
  \<^verbatim>\<open>POST /ingest\<close>, after \<open>authenticateToken\<close> has set \<^verbatim>\<open>req.deviceId\<close>. The
  body is the object that the JSON body parser always provides.
\<close>

definition ingest_handler :: "env \<Rightarrow> json option \<Rightarrow> json \<Rightarrow> world \<Rightarrow> response \<times> world" where
  "ingest_handler env authId body w =
     (case telemetrySchema env [] body of
        Inl e \<Rightarrow> (ErrorJson 400 ''Invalid telemetry data'' ''VALIDATION_ERROR'' (Some [e]), w)
      | Inr v \<Rightarrow>
          if Some (JStr (reading.deviceId v)) \<noteq> authId
            then (ErrorJson 403 ''Device ID mismatch'' ''DEVICE_ID_MISMATCH'' None, w)
          else
            (case store_reading env v w of
               (Inl e, w') \<Rightarrow> (ingest_catch e, w')
             | (Inr (document_id, ts), w') \<Rightarrow> (IngestJson 201 True document_id ts, w')))"

text \<open>
  \<^verbatim>\<open>POST /ingest/bulk\<close>. \<open>bulk_item\<close> is the body of the loop, with its
  \<^verbatim>\<open>try\<close> and \<^verbatim>\<open>catch\<close>: the failure or the result that one reading adds.
  \<open>bulk_loop\<close> is the \<^verbatim>\<open>for\<close> loop with its two arrays.
\<close>

definition bulk_item ::
  "env \<Rightarrow> json option \<Rightarrow> reading \<Rightarrow> world \<Rightarrow> (bulk_failure + bulk_result) \<times> world" where
  "bulk_item env authId r w =
     (if Some (JStr (reading.deviceId r)) \<noteq> authId
        then (Inl (Failure r ''Device ID mismatch''), w)
      else
        (case store_reading env r w of
           (Inl err, w') \<Rightarrow> (Inl (Failure r (message err)), w')
         | (Inr (document_id, ts), w') \<Rightarrow>
             (Inr (Result document_id ts (reading.sensorType r)), w')))"

fun bulk_loop ::
  "env \<Rightarrow> json option \<Rightarrow> reading list \<Rightarrow> bulk_result list \<Rightarrow> bulk_failure list \<Rightarrow> world
    \<Rightarrow> (bulk_result list \<times> bulk_failure list) \<times> world" where
  "bulk_loop env authId [] results errors w = ((results, errors), w)"
| "bulk_loop env authId (r # rs) results errors w =
     (case bulk_item env authId r w of
        (Inl f, w') \<Rightarrow> bulk_loop env authId rs results (errors @ [f]) w'
      | (Inr x, w') \<Rightarrow> bulk_loop env authId rs (results @ [x]) errors w')"

definition ingest_bulk_handler :: "env \<Rightarrow> json option \<Rightarrow> json \<Rightarrow> world \<Rightarrow> response \<times> world" where
  "ingest_bulk_handler env authId body w =
     (case bulkTelemetrySchema env body of
        Inl e \<Rightarrow> (ErrorJson 400 ''Invalid bulk telemetry data'' ''VALIDATION_ERROR'' (Some [e]), w)
      | Inr readings \<Rightarrow>
          (case bulk_loop env authId readings [] [] w of
             ((results, errors), w') \<Rightarrow>
               (BulkJson 201 True (length results) (length errors) results
                  (if length errors > 0 then Some errors else None), w')))"

text \<open>
  The two routes: \<open>authenticateToken\<close>, then the handler. The rate limiter that stands
  before them counts requests in real time and is not modelled; logging has no effect on
  a response or on the store.
\<close>

definition post_ingest ::
  "env \<Rightarrow> bearer_part list option \<Rightarrow> json \<Rightarrow> world \<Rightarrow> response \<times> world" where
  "post_ingest env authHeader body w =
     (case authenticateToken env authHeader w of
        (Inl res, w') \<Rightarrow> (res, w')
      | (Inr a, w') \<Rightarrow> ingest_handler env (req_deviceId a) body w')"

definition post_ingest_bulk ::
  "env \<Rightarrow> bearer_part list option \<Rightarrow> json \<Rightarrow> world \<Rightarrow> response \<times> world" where
  "post_ingest_bulk env authHeader body w =
     (case authenticateToken env authHeader w of
        (Inl res, w') \<Rightarrow> (res, w')
      | (Inr a, w') \<Rightarrow> ingest_bulk_handler env (req_deviceId a) body w')"

section \<open>A concrete environment\<close>

text \<open>
  One environment on which the handlers can be run: a signing key, the prefix
  \<^verbatim>\<open>aqua-\<close>, a lifetime of one hour, a clock that starts at 1700000000000 ms and
  advances one millisecond per reading, and a store that numbers its documents and
  fails its second call. \<open>iso_string\<close> is \<^verbatim>\<open>Date.prototype.toISOString\<close>
  (the proleptic Gregorian calendar, in UTC).
\<close>

fun pad :: "nat \<Rightarrow> int \<Rightarrow> string" where
  "pad 0 n = []"
| "pad (Suc k) n = pad k (n div 10) @ [''0123456789'' ! nat (n mod 10)]"

definition iso_string :: "int \<Rightarrow> string" where
  "iso_string t =
     (let days = t div 86400000;
          msec = t mod 86400000;
          z = days + 719468;
          era = z div 146097;
          doe = z - era * 146097;
          yoe = (doe - doe div 1460 + doe div 36524 - doe div 146096) div 365;
          doy = doe - (365 * yoe + yoe div 4 - yoe div 100);
          mp = (5 * doy + 2) div 153;
          d = doy - (153 * mp + 2) div 5 + 1;
          m = (if mp < 10 then mp + 3 else mp - 9);
          y = yoe + era * 400 + (if m \<le> 2 then 1 else 0)
      in (if 0 \<le> y \<and> y \<le> 9999 then pad 4 y
          else (if y < 0 then ''-'' else ''+'') @ pad 6 \<bar>y\<bar>)
         @ ''-'' @ pad 2 m @ ''-'' @ pad 2 d
         @ ''T'' @ pad 2 (msec div 3600000) @ '':'' @ pad 2 (msec div 60000 mod 60)
         @ '':'' @ pad 2 (msec div 1000 mod 60) @ ''.'' @ pad 3 (msec mod 1000) @ ''Z'')"

definition is_digit :: "char \<Rightarrow> bool" where
  "is_digit c = (c \<in> set ''0123456789'')"

text \<open>The sample's ISO rule accepts the normal form \<^verbatim>\<open>YYYY-MM-DDTHH:mm:ss.sssZ\<close> and keeps it.\<close>

definition sample_isoDate :: "string \<Rightarrow> string option" where
  "sample_isoDate s =
     (if list_all2 (\<lambda>p c. if p = CHR ''d'' then is_digit c else c = p) ''dddd-dd-ddTdd:dd:dd.dddZ'' s
      then Some s else None)"

text \<open>
  The sample converts a string of decimal digits to its number, and knows no other
  text of a number.
\<close>

definition sample_number_from_string :: "string \<Rightarrow> (string + rat) option" where
  "sample_number_from_string s =
     (if s \<noteq> [] \<and> list_all is_digit s
      then Some (Inr (of_int (foldl (\<lambda>a c. 10 * a + (of_char c - 48)) 0 s)))
      else None)"

definition sample_Number_toString :: "rat \<Rightarrow> string" where
  "sample_Number_toString n =
     (if n = of_int \<lfloor>n\<rfloor> \<and> 0 \<le> n \<and> n < 1000000
      then dropWhile (\<lambda>c. c = CHR ''0'') (pad 5 (\<lfloor>n\<rfloor> div 10)) @ pad 1 \<lfloor>n\<rfloor>
      else ''NaN'')"

definition sample_store_reply :: "document list \<Rightarrow> document \<Rightarrow> js_error + string" where
  "sample_store_reply previous doc =
     (if length previous = 1 then Inl (Error ''Server Error'' (Some 500))
      else Inr (''doc'' @ pad 3 (int (length previous))))"

definition sample_env :: env where
  "sample_env =
     \<lparr>JWT_SECRET = Some ''signing-key'',
      DEVICE_SECRET_PREFIX = Some ''aqua-'',
      JWT_EXPIRES_IN = Some ''1h'',
      ms = (\<lambda>s. if s = ''15m'' then Some 900000
                 else if s = ''1h'' then Some 3600000 else None),
      clock = (\<lambda>n. 1700000000000 + int n),
      store_reply = sample_store_reply,
      toISOString = iso_string,
      Number_toString = sample_Number_toString,
      joi_isoDate = sample_isoDate,
      joi_number_from_string = sample_number_from_string,
      joi_object_from_string = (\<lambda>s. None)\<rparr>"

definition world0 :: world where
  "world0 = \<lparr>calls = [], clock_reads = 0\<rparr>"

section \<open>Notions used in the statements\<close>

text \<open>
  The outcome of each reading of a batch, in the order of the batch: the failure or the
  result that the body of the loop adds for it, in the state its predecessors leave.
\<close>

fun bulk_outcomes ::
  "env \<Rightarrow> json option \<Rightarrow> reading list \<Rightarrow> world \<Rightarrow> (bulk_failure + bulk_result) list" where
  "bulk_outcomes env authId [] w = []"
| "bulk_outcomes env authId (r # rs) w =
     (case bulk_item env authId r w of (x, w') \<Rightarrow> x # bulk_outcomes env authId rs w')"

text \<open>An outcome belongs to a reading: a failure holds the reading, a result its sensor type.\<close>

fun outcome_of :: "reading \<Rightarrow> bulk_failure + bulk_result \<Rightarrow> bool" where
  "outcome_of r (Inl (Failure r' m)) = (r' = r)"
| "outcome_of r (Inr (Result i t st)) = (st = reading.sensorType r)"

text \<open>
  A reading reaches the store when its device id is the authenticated one and its
  timestamp, if a number, is a valid date. \<open>written_for r d\<close>: the document \<open>d\<close> has
  the fields that the handlers copy or derive from the reading \<open>r\<close>.
\<close>

definition timestamp_ok :: "reading \<Rightarrow> bool" where
  "timestamp_ok r =
     (case reading.timestamp r of
        Some (TsNumber n) \<Rightarrow> new_Date (js_times n 1000) \<noteq> None
      | _ \<Rightarrow> True)"

definition reaches_store :: "json option \<Rightarrow> reading \<Rightarrow> bool" where
  "reaches_store authId r = (Some (JStr (reading.deviceId r)) = authId \<and> timestamp_ok r)"

definition written_for :: "reading \<Rightarrow> document \<Rightarrow> bool" where
  "written_for r d =
     (document.deviceId d = reading.deviceId r
      \<and> document.sensorType d = reading.sensorType r
      \<and> document.val d = reading.val r
      \<and> document.location d =
          (case reading.location r of None \<Rightarrow> ''unknown'' | Some l \<Rightarrow> if l = [] then ''unknown'' else l)
      \<and> document.isAnomalous d = False)"

text \<open>
  The location rule in the words of the specification: the reading's location, else a
  location given with the request, else \<^verbatim>\<open>unknown\<close>.
\<close>

definition spec_location :: "string option \<Rightarrow> string option \<Rightarrow> string" where
  "spec_location reading_level request_level =
     (case reading_level of
        Some l \<Rightarrow> l
      | None \<Rightarrow> (case request_level of Some l \<Rightarrow> l | None \<Rightarrow> ''unknown''))"

text \<open>
  The location given with a request: the string under the key \<^verbatim>\<open>location\<close> of the
  request's body, if there is one.
\<close>

definition request_location :: "json \<Rightarrow> string option" where
  "request_location body =
     (case property (Some body) ''location'' of Some (JStr l) \<Rightarrow> Some l | _ \<Rightarrow> None)"

section \<open>Sample requests\<close>

text \<open>
  Requests of the device \<^verbatim>\<open>esp-1\<close> for the concrete environment. The batch has
  four readings: the second names another device, and the third is the store's second
  call, which fails.
\<close>

definition sample_auth :: "json option" where
  "sample_auth = Some (JStr ''esp-1'')"

definition reading_json :: "string \<Rightarrow> string \<Rightarrow> rat \<Rightarrow> (string \<times> json) list \<Rightarrow> json" where
  "reading_json d st v extra =
     JObj ([(''deviceId'', JStr d), (''sensorType'', JStr st), (''value'', JNum v)] @ extra)"

definition sample_batch :: json where
  "sample_batch =
     JObj [(''readings'', JArr
       [reading_json ''esp-1'' ''temperature'' (43 / 2) [],
        reading_json ''esp-2'' ''flow'' 3 [],
        reading_json ''esp-1'' ''ph'' 7 [(''location'', JStr ''tank'')],
        reading_json ''esp-1'' ''flow'' 3 [(''timestamp'', JNum 1700000000)]])]"

definition sample_reading ::
  "string \<Rightarrow> string \<Rightarrow> rat \<Rightarrow> timestamp_value option \<Rightarrow> string option \<Rightarrow> reading" where
  "sample_reading d st v ts l =
     \<lparr>reading.deviceId = d, reading.sensorType = st, reading.val = v, reading.unit = None,
      reading.timestamp = ts, reading.location = l, reading.metadata = None\<rparr>"

definition sample_readings :: "reading list" where
  "sample_readings =
     [sample_reading ''esp-1'' ''temperature'' (43 / 2) None None,
      sample_reading ''esp-2'' ''flow'' 3 None None,
      sample_reading ''esp-1'' ''ph'' 7 None (Some ''tank''),
      sample_reading ''esp-1'' ''flow'' 3 (Some (TsNumber 1700000000)) None]"

text \<open>
  A token of \<^verbatim>\<open>esp-1\<close> signed with the sample key, valid for the hour after
  1700000000 s, and the header that presents it.
\<close>

definition sample_token :: bearer_part where
  "sample_token =
     Compact (Jwt [(''deviceId'', JStr ''esp-1''), (''type'', JStr ''device''),
                   (''iat'', JNum 1700000000), (''exp'', JNum 1700003600)] ''signing-key'')"

definition sample_header :: "bearer_part list option" where
  "sample_header = Some [Plain ''Bearer'', sample_token]"

text \<open>
  A batch that carries a location beside its readings, a reading with the sensor type
  \<^verbatim>\<open>salinity\<close>, and the readings used for the timestamp cases.
\<close>

definition sample_batch_with_location :: json where
  "sample_batch_with_location =
     JObj [(''readings'', JArr [reading_json ''esp-1'' ''flow'' 3 []]), (''location'', JStr ''lab'')]"

definition sample_bad_sensor :: "(string \<times> json) list" where
  "sample_bad_sensor =
     [(''deviceId'', JStr ''esp-1''), (''sensorType'', JStr ''salinity''), (''value'', JNum 3)]"

definition sample_fields :: "(string \<times> json) list \<Rightarrow> (string \<times> json) list" where
  "sample_fields extra =
     [(''deviceId'', JStr ''esp-1''), (''sensorType'', JStr ''temperature''),
      (''value'', JNum (43 / 2))] @ extra"

text \<open>
  A batch of two readings that both name another device, a batch of one good reading, the
  sample token signed with another key, and credentials for the token endpoint.
\<close>

definition sample_batch_foreign :: json where
  "sample_batch_foreign =
     JObj [(''readings'', JArr
       [reading_json ''esp-2'' ''flow'' 3 [], reading_json ''esp-3'' ''ph'' 7 []])]"

definition sample_batch_single :: json where
  "sample_batch_single = JObj [(''readings'', JArr [reading_json ''esp-1'' ''flow'' 3 []])]"

definition sample_forged_token :: bearer_part where
  "sample_forged_token =
     Compact (Jwt [(''deviceId'', JStr ''esp-1''), (''type'', JStr ''device''),
                   (''iat'', JNum 1700000000), (''exp'', JNum 1700003600)] ''another-key'')"

definition sample_credentials :: "string \<Rightarrow> string \<Rightarrow> json option" where
  "sample_credentials d s = Some (JObj [(''deviceId'', JStr d), (''deviceSecret'', JStr s)])"

section \<open>Facts about the sample requests\<close>

lemma sample_batch_valid: "bulkTelemetrySchema sample_env sample_batch = Inr sample_readings"
  by code_simp

lemma sample_batch_foreign_valid:
  "bulkTelemetrySchema sample_env sample_batch_foreign =
     Inr [sample_reading ''esp-2'' ''flow'' 3 None None, sample_reading ''esp-3'' ''ph'' 7 None None]"
  by code_simp

lemma sample_env_configured:
  "JWT_SECRET sample_env = Some ''signing-key''"
  "ms sample_env (env_or (JWT_EXPIRES_IN sample_env) ''15m'') = Some 3600000"
  "env_or (DEVICE_SECRET_PREFIX sample_env) [] = ''aqua-''"
  by (simp_all add: sample_env_def env_or_def)

lemma sample_credentials_properties:
  "property (sample_credentials d s) ''deviceId'' = Some (JStr d)"
  "property (sample_credentials d s) ''deviceSecret'' = Some (JStr s)"
  by (simp_all add: sample_credentials_def property_def)

section \<open>The bulk loop\<close>

lemma successes_failures_length:
  "length [x. Inr x \<leftarrow> xs] + length [f. Inl f \<leftarrow> xs] = length xs"
  by (induction xs) (auto split: sum.splits)

lemma length_bulk_outcomes: "length (bulk_outcomes env a rs w) = length rs"
  by (induction rs arbitrary: w) (auto split: prod.splits)

lemma bulk_item_outcome_of: "outcome_of r (fst (bulk_item env a r w))"
  by (auto simp: bulk_item_def split: prod.splits sum.splits)

lemma bulk_outcomes_belong: "list_all2 outcome_of rs (bulk_outcomes env a rs w)"
proof (induction rs arbitrary: w)
  case Nil
  then show ?case by simp
next
  case (Cons r rs)
  obtain x w' where step: "bulk_item env a r w = (x, w')"
    by (cases "bulk_item env a r w")
  with bulk_item_outcome_of [of r env a w] have "outcome_of r x" by simp
  with step Cons.IH [of w'] show ?case by simp
qed

text \<open>
  The loop appends each reading's outcome to one of its two arrays and goes on to the
  next reading, whatever the outcome was.
\<close>

lemma bulk_loop_outcomes:
  "fst (bulk_loop env a rs results errors w) =
     (results @ [x. Inr x \<leftarrow> bulk_outcomes env a rs w],
      errors @ [f. Inl f \<leftarrow> bulk_outcomes env a rs w])"
proof (induction rs arbitrary: results errors w)
  case Nil
  then show ?case by simp
next
  case (Cons r rs)
  obtain x w' where step: "bulk_item env a r w = (x, w')"
    by (cases "bulk_item env a r w")
  show ?case
  proof (cases x)
    case (Inl f)
    with step Cons.IH [of results "errors @ [f]" w'] show ?thesis by simp
  next
    case (Inr y)
    with step Cons.IH [of "results @ [y]" errors w'] show ?thesis by simp
  qed
qed

lemma bulkTelemetrySchema_bounds:
  "bulkTelemetrySchema env body = Inr rs \<Longrightarrow> 1 \<le> length rs \<and> length rs \<le> 100"
  by (auto simp: bulkTelemetrySchema_def Suc_le_eq
      split: sum.splits option.splits json.splits if_splits)

lemma ingest_bulk_handler_outcomes:
  assumes "bulkTelemetrySchema env body = Inr rs"
  shows "fst (ingest_bulk_handler env authId body w) =
           BulkJson 201 True
             (length [x. Inr x \<leftarrow> bulk_outcomes env authId rs w])
             (length [f. Inl f \<leftarrow> bulk_outcomes env authId rs w])
             [x. Inr x \<leftarrow> bulk_outcomes env authId rs w]
             (if length [f. Inl f \<leftarrow> bulk_outcomes env authId rs w] > 0
              then Some [f. Inl f \<leftarrow> bulk_outcomes env authId rs w] else None)"
proof -
  obtain res errs w' where loop: "bulk_loop env authId rs [] [] w = ((res, errs), w')"
    by (metis prod.exhaust)
  with bulk_loop_outcomes [of env authId rs "[]" "[]" w]
  have "res = [x. Inr x \<leftarrow> bulk_outcomes env authId rs w]"
    and "errs = [f. Inl f \<leftarrow> bulk_outcomes env authId rs w]" by simp_all
  with assms loop show ?thesis by (simp add: ingest_bulk_handler_def)
qed

text \<open>
  Claim C1. A bulk body that passes the batch schema has between 1 and 100 readings.
  Every one of its \<open>N\<close> readings gets its own outcome, whatever happened to the readings
  before it; with \<open>K\<close> of the outcomes failures, the response reports
  \<open>processed = N - K\<close> and \<open>failed = K\<close>, and its two lists are the results and the
  failures in the order of the readings they came from. (A reading fails when its device
  id is not the authenticated one, when its numeric timestamp is no valid date, or when
  the store throws.)
\<close>

theorem bulk_partial_failure:
  assumes "bulkTelemetrySchema env body = Inr rs"
  shows "let outcomes = bulk_outcomes env authId rs w;
             K = length [f. Inl f \<leftarrow> outcomes]
         in 1 \<le> length rs \<and> length rs \<le> 100
            \<and> list_all2 outcome_of rs outcomes
            \<and> K \<le> length rs
            \<and> fst (ingest_bulk_handler env authId body w) =
                BulkJson 201 True (length rs - K) K [x. Inr x \<leftarrow> outcomes]
                  (if K > 0 then Some [f. Inl f \<leftarrow> outcomes] else None)"
proof -
  let ?out = "bulk_outcomes env authId rs w"
  have len: "length [x. Inr x \<leftarrow> ?out] = length rs - length [f. Inl f \<leftarrow> ?out]"
    and le: "length [f. Inl f \<leftarrow> ?out] \<le> length rs"
    using successes_failures_length [of ?out] length_bulk_outcomes [of env authId rs w]
    by simp_all
  from ingest_bulk_handler_outcomes [OF assms, of authId w] len le
    bulkTelemetrySchema_bounds [OF assms] bulk_outcomes_belong [of rs env authId w]
  show ?thesis by (simp add: Let_def)
qed

theorem bulk_partial_failure_witness:
  "bulkTelemetrySchema sample_env sample_batch = Inr sample_readings
   \<and> (let outcomes = bulk_outcomes sample_env sample_auth sample_readings world0;
          K = length [f. Inl f \<leftarrow> outcomes]
      in 1 \<le> length sample_readings \<and> length sample_readings \<le> 100
         \<and> list_all2 outcome_of sample_readings outcomes
         \<and> K \<le> length sample_readings
         \<and> fst (ingest_bulk_handler sample_env sample_auth sample_batch world0) =
             BulkJson 201 True (length sample_readings - K) K [x. Inr x \<leftarrow> outcomes]
               (if K > 0 then Some [f. Inl f \<leftarrow> outcomes] else None))
   \<and> fst (ingest_bulk_handler sample_env sample_auth sample_batch world0) =
       BulkJson 201 True 2 2
         [Result ''doc000'' ''2023-11-14T22:13:20.000Z'' ''temperature'',
          Result ''doc002'' ''2023-11-14T22:13:20.000Z'' ''flow'']
         (Some [Failure (sample_reading ''esp-2'' ''flow'' 3 None None) ''Device ID mismatch'',
                Failure (sample_reading ''esp-1'' ''ph'' 7 None (Some ''tank'')) ''Server Error''])"
proof -
  note h = sample_batch_valid
  have c: "fst (ingest_bulk_handler sample_env sample_auth sample_batch world0) =
       BulkJson 201 True 2 2
         [Result ''doc000'' ''2023-11-14T22:13:20.000Z'' ''temperature'',
          Result ''doc002'' ''2023-11-14T22:13:20.000Z'' ''flow'']
         (Some [Failure (sample_reading ''esp-2'' ''flow'' 3 None None) ''Device ID mismatch'',
                Failure (sample_reading ''esp-1'' ''ph'' 7 None (Some ''tank'')) ''Server Error''])"
    by code_simp
  show ?thesis
    by (rule conjI [OF h conjI [OF bulk_partial_failure [OF h, of sample_auth world0] c]])
qed

section \<open>What reaches the store\<close>

lemma Date_now_calls: "calls (snd (Date_now env w)) = calls w"
  by (simp add: Date_now_def)

lemma normalize_timestamp_calls: "calls (snd (normalize_timestamp env ts w)) = calls w"
  by (auto simp: normalize_timestamp_def current_time_def Date_now_def
      split: option.splits timestamp_value.splits)

lemma normalize_timestamp_Inl:
  "normalize_timestamp env ts w = (Inl e, w1) \<Longrightarrow>
     w1 = w \<and> (\<exists>n. ts = Some (TsNumber n) \<and> new_Date (js_times n 1000) = None)"
  by (auto simp: normalize_timestamp_def current_time_def Date_now_def Date_toISOString_def
      split: option.splits timestamp_value.splits if_splits)

lemma normalize_timestamp_Inr:
  "normalize_timestamp env (reading.timestamp r) w = (Inr ts, w1) \<Longrightarrow> timestamp_ok r"
  by (auto simp: normalize_timestamp_def timestamp_ok_def Date_toISOString_def
      split: option.splits timestamp_value.splits if_splits)

lemma store_reading_Inl:
  assumes "normalize_timestamp env (reading.timestamp r) w = (Inl e, w1)"
  shows "store_reading env r w = (Inl e, w)"
  using assms normalize_timestamp_Inl [OF assms] by (simp add: store_reading_def)

lemma store_reading_Inr:
  assumes "normalize_timestamp env (reading.timestamp r) w = (Inr ts, w1)"
  shows "\<exists>d. written_for r d \<and> document.timestamp d = ts
           \<and> calls (snd (store_reading env r w)) = calls w @ [d]
           \<and> fst (store_reading env r w) =
               (case store_reply env (calls w) d of Inl e \<Rightarrow> Inl e | Inr i \<Rightarrow> Inr (i, ts))"
proof -
  have c: "calls w1 = calls w"
    using normalize_timestamp_calls [of env "reading.timestamp r" w] assms by simp
  show ?thesis
    using assms c
    by (auto simp: store_reading_def Let_def Date_now_def createDocument_def written_for_def
        split: prod.splits sum.splits option.splits)
qed

lemma store_reading_calls:
  "\<exists>d. written_for r d
      \<and> calls (snd (store_reading env r w)) = calls w @ (if timestamp_ok r then [d] else [])"
proof (cases "fst (normalize_timestamp env (reading.timestamp r) w)")
  case (Inl e)
  then have n: "normalize_timestamp env (reading.timestamp r) w
                  = (Inl e, snd (normalize_timestamp env (reading.timestamp r) w))"
    by (metis prod.collapse)
  from normalize_timestamp_Inl [OF n] have "\<not> timestamp_ok r"
    by (auto simp: timestamp_ok_def)
  moreover have "\<exists>d. written_for r d"
    by (rule exI [of _ "\<lparr>document.deviceId = reading.deviceId r,
          sensorType = reading.sensorType r, val = reading.val r, unit = [],
          timestamp = [],
          location = (case reading.location r of None \<Rightarrow> ''unknown''
                      | Some l \<Rightarrow> if l = [] then ''unknown'' else l),
          isAnomalous = False, ingestedAt = [], metadata = []\<rparr>"])
       (simp add: written_for_def)
  ultimately show ?thesis using store_reading_Inl [OF n] by auto
next
  case (Inr ts)
  then have n: "normalize_timestamp env (reading.timestamp r) w
                  = (Inr ts, snd (normalize_timestamp env (reading.timestamp r) w))"
    by (metis prod.collapse)
  from store_reading_Inr [OF n] normalize_timestamp_Inr [OF n] show ?thesis by auto
qed

lemma bulk_item_calls:
  "\<exists>d. written_for r d
      \<and> calls (snd (bulk_item env a r w)) = calls w @ (if reaches_store a r then [d] else [])"
proof (cases "Some (JStr (reading.deviceId r)) = a")
  case True
  obtain d where d: "written_for r d"
    "calls (snd (store_reading env r w)) = calls w @ (if timestamp_ok r then [d] else [])"
    using store_reading_calls [of r env w] by blast
  have "calls (snd (bulk_item env a r w)) = calls (snd (store_reading env r w))"
    using True by (auto simp: bulk_item_def split: prod.splits sum.splits)
  with d True show ?thesis by (auto simp: reaches_store_def)
next
  case False
  obtain d where "written_for r d" using store_reading_calls [of r env w] by blast
  with False show ?thesis by (auto simp: bulk_item_def reaches_store_def)
qed

text \<open>The three ways in which the body of the loop fails for a reading.\<close>

lemma bulk_item_failure_causes:
  "(Some (JStr (reading.deviceId r)) \<noteq> a \<longrightarrow>
      bulk_item env a r w = (Inl (Failure r ''Device ID mismatch''), w))
   \<and> (Some (JStr (reading.deviceId r)) = a \<and> \<not> timestamp_ok r \<longrightarrow>
      bulk_item env a r w = (Inl (Failure r ''Invalid time value''), w))
   \<and> (reaches_store a r \<longrightarrow>
      (\<exists>d. calls (snd (bulk_item env a r w)) = calls w @ [d]
          \<and> fst (bulk_item env a r w) =
              (case store_reply env (calls w) d of
                 Inl e \<Rightarrow> Inl (Failure r (message e))
               | Inr i \<Rightarrow> Inr (Result i (document.timestamp d) (reading.sensorType r)))))"
proof -
  have 1: "bulk_item env a r w = (Inl (Failure r ''Device ID mismatch''), w)"
    if "Some (JStr (reading.deviceId r)) \<noteq> a"
    using that by (simp add: bulk_item_def)
  have 2: "bulk_item env a r w = (Inl (Failure r ''Invalid time value''), w)"
    if "Some (JStr (reading.deviceId r)) = a" and "\<not> timestamp_ok r"
  proof -
    from that(2) obtain n where n: "reading.timestamp r = Some (TsNumber n)"
      "new_Date (js_times n 1000) = None"
      by (auto simp: timestamp_ok_def split: option.splits timestamp_value.splits)
    then have "normalize_timestamp env (reading.timestamp r) w =
                 (Inl (Error ''Invalid time value'' None), w)"
      by (simp add: normalize_timestamp_def Date_toISOString_def)
    from store_reading_Inl [OF this] that(1) show ?thesis
      by (simp add: bulk_item_def)
  qed
  have 3: "\<exists>d. calls (snd (bulk_item env a r w)) = calls w @ [d]
          \<and> fst (bulk_item env a r w) =
              (case store_reply env (calls w) d of
                 Inl e \<Rightarrow> Inl (Failure r (message e))
               | Inr i \<Rightarrow> Inr (Result i (document.timestamp d) (reading.sensorType r)))"
    if "reaches_store a r"
  proof -
    from that have a: "Some (JStr (reading.deviceId r)) = a" and ok: "timestamp_ok r"
      by (simp_all add: reaches_store_def)
    obtain x w1 where n: "normalize_timestamp env (reading.timestamp r) w = (x, w1)"
      by (cases "normalize_timestamp env (reading.timestamp r) w")
    from ok n obtain ts where x: "x = Inr ts"
      using normalize_timestamp_Inl [of env "reading.timestamp r" w _ w1]
      by (cases x) (auto simp: timestamp_ok_def)
    from store_reading_Inr [OF n [unfolded x]] obtain d where d:
      "document.timestamp d = ts"
      "calls (snd (store_reading env r w)) = calls w @ [d]"
      "fst (store_reading env r w) =
         (case store_reply env (calls w) d of Inl e \<Rightarrow> Inl e | Inr i \<Rightarrow> Inr (i, ts))"
      by blast
    obtain y w2 where sr: "store_reading env r w = (y, w2)"
      by (cases "store_reading env r w")
    with d a show ?thesis
      by (intro exI [of _ d]) (auto simp: bulk_item_def split: sum.splits)
  qed
  from 1 2 3 show ?thesis by blast
qed

lemma bulk_loop_calls:
  "\<exists>new. calls (snd (bulk_loop env a rs results errors w)) = calls w @ new
      \<and> list_all2 (\<lambda>d r. written_for r d) new (filter (reaches_store a) rs)"
proof (induction rs arbitrary: results errors w)
  case Nil
  then show ?case by simp
next
  case (Cons r rs)
  obtain x w' where step: "bulk_item env a r w = (x, w')"
    by (cases "bulk_item env a r w")
  obtain d where d: "written_for r d"
    "calls w' = calls w @ (if reaches_store a r then [d] else [])"
    using bulk_item_calls [of r env a w] step by auto
  obtain res' errs' where loop:
    "bulk_loop env a (r # rs) results errors w = bulk_loop env a rs res' errs' w'"
    using step by (cases x) auto
  obtain new where new: "calls (snd (bulk_loop env a rs res' errs' w')) = calls w' @ new"
    "list_all2 (\<lambda>d r. written_for r d) new (filter (reaches_store a) rs)"
    using Cons.IH [of res' errs' w'] by blast
  show ?case
  proof (cases "reaches_store a r")
    case True
    with loop new d show ?thesis by (intro exI [of _ "d # new"]) simp
  next
    case False
    with loop new d show ?thesis by (intro exI [of _ new]) simp
  qed
qed

lemma bulk_outcomes_mismatch:
  "r \<in> set rs \<Longrightarrow> Some (JStr (reading.deviceId r)) \<noteq> a \<Longrightarrow>
     Inl (Failure r ''Device ID mismatch'') \<in> set (bulk_outcomes env a rs w)"
proof (induction rs arbitrary: w)
  case Nil
  then show ?case by simp
next
  case (Cons x xs)
  obtain y w' where step: "bulk_item env a x w = (y, w')"
    by (cases "bulk_item env a x w")
  show ?case
  proof (cases "r = x")
    case True
    with Cons.prems step have "y = Inl (Failure r ''Device ID mismatch'')"
      by (simp add: bulk_item_def)
    with step show ?thesis by simp
  next
    case False
    with Cons.prems have "r \<in> set xs" by simp
    from Cons.IH [OF this Cons.prems(2), of w'] step show ?thesis by simp
  qed
qed

lemma authenticateToken_calls: "calls (snd (authenticateToken env hdr w)) = calls w"
  by (auto simp: authenticateToken_def jwt_verify_def Date_now_def Let_def
      split: option.splits prod.splits sum.splits if_splits)

lemma authenticateToken_Inr:
  "authenticateToken env hdr w = (Inr (Auth d e), w') \<Longrightarrow>
     \<exists>parts payload k. hdr = Some parts \<and> 1 < length parts
        \<and> parts ! 1 = Compact (Jwt payload k) \<and> JWT_SECRET env = Some k
        \<and> d = map_of payload ''deviceId'' \<and> e = map_of payload ''exp''"
  by (auto simp: authenticateToken_def jwt_verify_def Date_now_def Let_def
      split: option.splits prod.splits sum.splits if_splits bearer_part.splits jwt.splits json.splits)

lemma telemetrySchema_location:
  "telemetrySchema env p j = Inr v \<Longrightarrow> reading.location v \<noteq> Some []"
  by (auto simp: telemetrySchema_def schema_optional_string_def joi_string_def
      split: sum.splits option.splits json.splits if_splits)

lemma schema_items_location:
  "schema_items env i xs = Inr rs \<Longrightarrow> \<forall>r\<in>set rs. reading.location r \<noteq> Some []"
proof (induction xs arbitrary: i rs)
  case Nil
  then show ?case by simp
next
  case (Cons x xs)
  obtain r rs' where r: "telemetrySchema env [Key ''readings'', Index i] x = Inr r"
    and rs': "schema_items env (Suc i) xs = Inr rs'" and eq: "rs = r # rs'"
    using Cons.prems by (auto split: sum.splits)
  from telemetrySchema_location [OF r] Cons.IH [OF rs'] eq show ?case by simp
qed

lemma bulkTelemetrySchema_location:
  "bulkTelemetrySchema env body = Inr rs \<Longrightarrow> \<forall>r\<in>set rs. reading.location r \<noteq> Some []"
  by (auto simp: bulkTelemetrySchema_def
      split: sum.splits option.splits json.splits if_splits dest: schema_items_location)

lemma ingest_handler_calls:
  assumes "telemetrySchema env [] body = Inr v"
  shows "\<exists>d. written_for v d
           \<and> calls (snd (ingest_handler env authId body w)) =
               calls w @ (if reaches_store authId v then [d] else [])"
proof (cases "Some (JStr (reading.deviceId v)) = authId")
  case True
  obtain d where d: "written_for v d"
    "calls (snd (store_reading env v w)) = calls w @ (if timestamp_ok v then [d] else [])"
    using store_reading_calls [of v env w] by blast
  have "calls (snd (ingest_handler env authId body w)) = calls (snd (store_reading env v w))"
    using True assms by (auto simp: ingest_handler_def split: prod.splits sum.splits)
  with d True show ?thesis by (auto simp: reaches_store_def)
next
  case False
  obtain d where "written_for v d" using store_reading_calls [of v env w] by blast
  with False assms show ?thesis by (auto simp: ingest_handler_def reaches_store_def)
qed

lemma ingest_handler_invalid:
  "telemetrySchema env [] body = Inl e \<Longrightarrow>
     ingest_handler env authId body w =
       (ErrorJson 400 ''Invalid telemetry data'' ''VALIDATION_ERROR'' (Some [e]), w)"
  by (simp add: ingest_handler_def)

lemma ingest_bulk_handler_calls:
  assumes "bulkTelemetrySchema env body = Inr rs"
  shows "\<exists>new. calls (snd (ingest_bulk_handler env authId body w)) = calls w @ new
           \<and> list_all2 (\<lambda>d r. written_for r d) new (filter (reaches_store authId) rs)"
proof -
  have "calls (snd (ingest_bulk_handler env authId body w))
          = calls (snd (bulk_loop env authId rs [] [] w))"
    using assms by (simp add: ingest_bulk_handler_def split: prod.splits)
  with bulk_loop_calls [of env authId rs "[]" "[]" w] show ?thesis by simp
qed

lemma ingest_bulk_handler_invalid:
  "bulkTelemetrySchema env body = Inl e \<Longrightarrow>
     ingest_bulk_handler env authId body w =
       (ErrorJson 400 ''Invalid bulk telemetry data'' ''VALIDATION_ERROR'' (Some [e]), w)"
  by (simp add: ingest_bulk_handler_def)

lemma written_device_ids:
  "list_all2 (\<lambda>d r. written_for r d) new rs \<Longrightarrow> \<forall>r\<in>set rs. reaches_store a r \<Longrightarrow>
     list_all (\<lambda>d. Some (JStr (document.deviceId d)) = a) new"
  by (induction rule: list_all2_induct) (auto simp: written_for_def reaches_store_def)

lemma ingest_handler_device_ids:
  "\<exists>new. calls (snd (ingest_handler env authId body w)) = calls w @ new
      \<and> list_all (\<lambda>d. Some (JStr (document.deviceId d)) = authId) new"
proof (cases "telemetrySchema env [] body")
  case (Inl e)
  then show ?thesis by (simp add: ingest_handler_invalid)
next
  case (Inr v)
  from ingest_handler_calls [OF Inr, of authId w] show ?thesis
    by (auto simp: written_for_def reaches_store_def)
qed

lemma ingest_bulk_handler_device_ids:
  "\<exists>new. calls (snd (ingest_bulk_handler env authId body w)) = calls w @ new
      \<and> list_all (\<lambda>d. Some (JStr (document.deviceId d)) = authId) new"
proof (cases "bulkTelemetrySchema env body")
  case (Inl e)
  then show ?thesis by (simp add: ingest_bulk_handler_invalid)
next
  case (Inr rs)
  from ingest_bulk_handler_calls [OF Inr, of authId w] obtain new where
    new: "calls (snd (ingest_bulk_handler env authId body w)) = calls w @ new"
      "list_all2 (\<lambda>d r. written_for r d) new (filter (reaches_store authId) rs)"
    by blast
  from written_device_ids [OF new(2)] new(1) show ?thesis by auto
qed

lemma failures_member:
  "Inl f \<in> set xs \<Longrightarrow> f \<in> set [f. Inl f \<leftarrow> xs]"
  by (induction xs) (auto split: sum.splits)

lemma ingest_bulk_handler_mismatch:
  assumes "bulkTelemetrySchema env body = Inr rs" and "r \<in> set rs"
    and "Some (JStr (reading.deviceId r)) \<noteq> authId"
  shows "\<exists>p f results errors.
           fst (ingest_bulk_handler env authId body w) = BulkJson 201 True p f results (Some errors)
           \<and> Failure r ''Device ID mismatch'' \<in> set errors"
proof -
  let ?out = "bulk_outcomes env authId rs w"
  have m: "Failure r ''Device ID mismatch'' \<in> set [f. Inl f \<leftarrow> ?out]"
    using bulk_outcomes_mismatch [OF assms(2,3)] by (rule failures_member)
  then have "length [f. Inl f \<leftarrow> ?out] > 0" by (metis length_pos_if_in_set)
  with ingest_bulk_handler_outcomes [OF assms(1), of authId w] m show ?thesis
    by auto
qed

text \<open>
  Claim C2. With \<open>authId\<close> the device id that \<open>authenticateToken\<close> takes from the
  presented token (the \<^verbatim>\<open>deviceId\<close> claim of a token signed with the gateway's
  key): every document that a single or a bulk request hands to the store carries that
  device id, and it is the reading's own device id, never a replacement. A valid single
  reading with another device id is answered with 403 and the code DEVICE_ID_MISMATCH and
  the store is not called; in a valid batch the documents handed to the store are those of
  the readings with the authenticated device id (and a valid timestamp), in order, and
  every reading with another device id is in the failure list with the error
  \<^verbatim>\<open>Device ID mismatch\<close>.
\<close>

theorem device_id_binding:
  assumes auth: "authenticateToken env hdr w = (Inr (Auth authId e), w1)"
  shows "(\<exists>parts payload k. hdr = Some parts \<and> 1 < length parts
            \<and> parts ! 1 = Compact (Jwt payload k)
            \<and> JWT_SECRET env = Some k \<and> map_of payload ''deviceId'' = authId)
    \<and> (\<exists>new. calls (snd (post_ingest env hdr body w)) = calls w @ new
            \<and> list_all (\<lambda>d. Some (JStr (document.deviceId d)) = authId) new)
    \<and> (\<exists>new. calls (snd (post_ingest_bulk env hdr bulk w)) = calls w @ new
            \<and> list_all (\<lambda>d. Some (JStr (document.deviceId d)) = authId) new)
    \<and> (\<forall>v. telemetrySchema env [] body = Inr v \<longrightarrow>
          (\<exists>d. written_for v d
              \<and> calls (snd (post_ingest env hdr body w)) =
                  calls w @ (if reaches_store authId v then [d] else []))
          \<and> (Some (JStr (reading.deviceId v)) \<noteq> authId \<longrightarrow>
               post_ingest env hdr body w =
                 (ErrorJson 403 ''Device ID mismatch'' ''DEVICE_ID_MISMATCH'' None, w1)
               \<and> calls w1 = calls w))
    \<and> (\<forall>rs. bulkTelemetrySchema env bulk = Inr rs \<longrightarrow>
          (\<exists>new. calls (snd (post_ingest_bulk env hdr bulk w)) = calls w @ new
              \<and> list_all2 (\<lambda>d r. written_for r d) new (filter (reaches_store authId) rs))
          \<and> (\<forall>r\<in>set rs. Some (JStr (reading.deviceId r)) \<noteq> authId \<longrightarrow>
                (\<exists>p f results errors.
                    fst (post_ingest_bulk env hdr bulk w) = BulkJson 201 True p f results (Some errors)
                    \<and> Failure r ''Device ID mismatch'' \<in> set errors)))"
proof -
  have c: "calls w1 = calls w"
    using authenticateToken_calls [of env hdr w] auth by simp
  have single: "post_ingest env hdr body w = ingest_handler env authId body w1"
    using auth by (simp add: post_ingest_def)
  have many: "post_ingest_bulk env hdr bulk w = ingest_bulk_handler env authId bulk w1"
    using auth by (simp add: post_ingest_bulk_def)
  have 1: "\<exists>parts payload k. hdr = Some parts \<and> 1 < length parts
            \<and> parts ! 1 = Compact (Jwt payload k)
            \<and> JWT_SECRET env = Some k \<and> map_of payload ''deviceId'' = authId"
    using authenticateToken_Inr [OF auth] by blast
  have 2: "\<exists>new. calls (snd (post_ingest env hdr body w)) = calls w @ new
            \<and> list_all (\<lambda>d. Some (JStr (document.deviceId d)) = authId) new"
    using ingest_handler_device_ids [of env authId body w1] by (simp add: single c)
  have 3: "\<exists>new. calls (snd (post_ingest_bulk env hdr bulk w)) = calls w @ new
            \<and> list_all (\<lambda>d. Some (JStr (document.deviceId d)) = authId) new"
    using ingest_bulk_handler_device_ids [of env authId bulk w1] by (simp add: many c)
  have 4: "(\<exists>d. written_for v d
              \<and> calls (snd (post_ingest env hdr body w)) =
                  calls w @ (if reaches_store authId v then [d] else []))
          \<and> (Some (JStr (reading.deviceId v)) \<noteq> authId \<longrightarrow>
               post_ingest env hdr body w =
                 (ErrorJson 403 ''Device ID mismatch'' ''DEVICE_ID_MISMATCH'' None, w1)
               \<and> calls w1 = calls w)"
    if v: "telemetrySchema env [] body = Inr v" for v
    using ingest_handler_calls [OF v, of authId w1] v c
    by (simp add: single ingest_handler_def)
  have 5: "(\<exists>new. calls (snd (post_ingest_bulk env hdr bulk w)) = calls w @ new
              \<and> list_all2 (\<lambda>d r. written_for r d) new (filter (reaches_store authId) rs))
          \<and> (\<forall>r\<in>set rs. Some (JStr (reading.deviceId r)) \<noteq> authId \<longrightarrow>
                (\<exists>p f results errors.
                    fst (post_ingest_bulk env hdr bulk w) = BulkJson 201 True p f results (Some errors)
                    \<and> Failure r ''Device ID mismatch'' \<in> set errors))"
    if rs: "bulkTelemetrySchema env bulk = Inr rs" for rs
    using ingest_bulk_handler_calls [OF rs, of authId w1] ingest_bulk_handler_mismatch [OF rs, of _ authId w1]
    by (simp add: many c)
  from 1 2 3 4 5 show ?thesis by blast
qed

theorem device_id_binding_witness:
  "authenticateToken sample_env sample_header world0 =
     (Inr (Auth sample_auth (Some (JNum 1700003600))), world0\<lparr>clock_reads := 1\<rparr>)
   \<and> telemetrySchema sample_env [] (reading_json ''esp-2'' ''flow'' 3 []) =
       Inr (sample_reading ''esp-2'' ''flow'' 3 None None)
   \<and> post_ingest sample_env sample_header (reading_json ''esp-2'' ''flow'' 3 []) world0 =
       (ErrorJson 403 ''Device ID mismatch'' ''DEVICE_ID_MISMATCH'' None, world0\<lparr>clock_reads := 1\<rparr>)
   \<and> bulkTelemetrySchema sample_env sample_batch = Inr sample_readings
   \<and> (\<exists>p f results errors.
         fst (post_ingest_bulk sample_env sample_header sample_batch world0) =
           BulkJson 201 True p f results (Some errors)
         \<and> Failure (sample_reading ''esp-2'' ''flow'' 3 None None) ''Device ID mismatch'' \<in> set errors)
   \<and> (\<exists>new. calls (snd (post_ingest_bulk sample_env sample_header sample_batch world0)) =
          calls world0 @ new
        \<and> list_all (\<lambda>d. Some (JStr (document.deviceId d)) = sample_auth) new)"
proof -
  have a: "authenticateToken sample_env sample_header world0 =
     (Inr (Auth sample_auth (Some (JNum 1700003600))), world0\<lparr>clock_reads := 1\<rparr>)"
    by code_simp
  have v: "telemetrySchema sample_env [] (reading_json ''esp-2'' ''flow'' 3 []) =
       Inr (sample_reading ''esp-2'' ''flow'' 3 None None)"
    by code_simp
  have ne: "Some (JStr (reading.deviceId (sample_reading ''esp-2'' ''flow'' 3 None None))) \<noteq> sample_auth"
    by (simp add: sample_reading_def sample_auth_def)
  have mem: "sample_reading ''esp-2'' ''flow'' 3 None None \<in> set sample_readings"
    by (simp add: sample_readings_def)
  note t = device_id_binding [OF a, of "reading_json ''esp-2'' ''flow'' 3 []" sample_batch]
  from t v ne have s:
    "post_ingest sample_env sample_header (reading_json ''esp-2'' ''flow'' 3 []) world0 =
       (ErrorJson 403 ''Device ID mismatch'' ''DEVICE_ID_MISMATCH'' None, world0\<lparr>clock_reads := 1\<rparr>)"
    by blast
  from t sample_batch_valid mem ne have b:
    "\<exists>p f results errors.
         fst (post_ingest_bulk sample_env sample_header sample_batch world0) =
           BulkJson 201 True p f results (Some errors)
         \<and> Failure (sample_reading ''esp-2'' ''flow'' 3 None None) ''Device ID mismatch'' \<in> set errors"
    by blast
  from t have n:
    "\<exists>new. calls (snd (post_ingest_bulk sample_env sample_header sample_batch world0)) =
          calls world0 @ new
        \<and> list_all (\<lambda>d. Some (JStr (document.deviceId d)) = sample_auth) new"
    by blast
  from a v s sample_batch_valid b n show ?thesis by (intro conjI)
qed

section \<open>Locations\<close>

lemma written_locations:
  "list_all2 (\<lambda>d r. written_for r d) new rs \<Longrightarrow> \<forall>r\<in>set rs. reading.location r \<noteq> Some [] \<Longrightarrow>
     map document.location new =
       map (\<lambda>r. case reading.location r of Some l \<Rightarrow> l | None \<Rightarrow> ''unknown'') rs"
  by (induction rule: list_all2_induct) (auto simp: written_for_def split: option.splits)

lemma joi_object_JObj: "joi_object env (JObj fs) = Inr fs"
  by (simp add: joi_object_def)

lemma bulk_unknown_key:
  assumes "map_of fs k = Some x" and "k \<noteq> ''readings''"
  shows "\<exists>e. bulkTelemetrySchema env (JObj fs) = Inl e"
proof -
  have "k \<in> set (map fst fs)" using assms(1) by (metis map_of_eq_None_iff option.distinct(1) set_map)
  with assms(2) have "find (\<lambda>k. k \<noteq> ''readings'') (map fst fs) \<noteq> None"
    by (auto simp: find_None_iff)
  then show ?thesis
    by (auto simp: bulkTelemetrySchema_def joi_object_JObj
        split: sum.splits option.splits json.splits if_splits)
qed

lemma telemetrySchema_request_location:
  assumes "telemetrySchema env p body = Inr v"
  shows "spec_location (reading.location v) (request_location body) =
           (case reading.location v of Some l \<Rightarrow> l | None \<Rightarrow> ''unknown'')"
proof (cases body)
  case (JObj fs)
  with assms have "schema_optional_string (map_of fs ''location'') = Inr (reading.location v)"
    by (auto simp: telemetrySchema_def joi_object_JObj split: sum.splits option.splits)
  then have "reading.location v = None \<Longrightarrow> map_of fs ''location'' = None"
    by (auto simp: schema_optional_string_def split: option.splits sum.splits)
  with JObj show ?thesis
    by (auto simp: spec_location_def request_location_def property_def split: option.splits)
qed (simp_all add: spec_location_def request_location_def property_def split: option.splits)

lemma bulkTelemetrySchema_request_location:
  assumes "bulkTelemetrySchema env body = Inr rs"
  shows "request_location body = None"
proof (cases body)
  case (JObj fs)
  show ?thesis
  proof (cases "map_of fs ''location''")
    case None
    with JObj show ?thesis by (simp add: request_location_def property_def)
  next
    case (Some x)
    from bulk_unknown_key [OF Some, of env] assms JObj show ?thesis by simp
  qed
qed (simp_all add: request_location_def property_def)

text \<open>
  Claim C7. For every reading that the gateway hands to the store, alone or as one of a
  batch, the location of the document is the one the specification's rule gives: the
  reading's own location when it has one, else the location given with the request when
  there is one, else the string \<^verbatim>\<open>unknown\<close>. For a single reading the body of the
  request is the reading. For a batch that passes the schema the request never has a
  location of its own (the schema of a bulk body knows the key \<^verbatim>\<open>readings\<close> only),
  so the documents of a batch carry the reading's location or \<^verbatim>\<open>unknown\<close>, in the
  order of the readings that reach the store.
\<close>

theorem location_rule:
  "(\<forall>v. telemetrySchema env [] body = Inr v \<longrightarrow>
      (\<exists>d. calls (snd (ingest_handler env authId body w)) =
              calls w @ (if reaches_store authId v then [d] else [])
          \<and> document.location d = spec_location (reading.location v) (request_location body)))
   \<and> (\<forall>rs. bulkTelemetrySchema env bulk = Inr rs \<longrightarrow>
      request_location bulk = None
      \<and> (\<exists>new. calls (snd (ingest_bulk_handler env authId bulk w)) = calls w @ new
            \<and> map document.location new =
                map (\<lambda>r. spec_location (reading.location r) (request_location bulk))
                  (filter (reaches_store authId) rs)))"
proof -
  have 1: "\<exists>d. calls (snd (ingest_handler env authId body w)) =
              calls w @ (if reaches_store authId v then [d] else [])
          \<and> document.location d = spec_location (reading.location v) (request_location body)"
    if v: "telemetrySchema env [] body = Inr v" for v
    using ingest_handler_calls [OF v, of authId w] telemetrySchema_location [OF v]
    unfolding telemetrySchema_request_location [OF v]
    by (auto simp: written_for_def split: option.splits)
  have 2: "request_location bulk = None
      \<and> (\<exists>new. calls (snd (ingest_bulk_handler env authId bulk w)) = calls w @ new
            \<and> map document.location new =
                map (\<lambda>r. spec_location (reading.location r) (request_location bulk))
                  (filter (reaches_store authId) rs))"
    if rs: "bulkTelemetrySchema env bulk = Inr rs" for rs
  proof -
    note n = bulkTelemetrySchema_request_location [OF rs]
    obtain new where new:
      "calls (snd (ingest_bulk_handler env authId bulk w)) = calls w @ new"
      "list_all2 (\<lambda>d r. written_for r d) new (filter (reaches_store authId) rs)"
      using ingest_bulk_handler_calls [OF rs, of authId w] by blast
    have "\<forall>r\<in>set (filter (reaches_store authId) rs). reading.location r \<noteq> Some []"
      using bulkTelemetrySchema_location [OF rs] by simp
    from written_locations [OF new(2) this]
    have "map document.location new =
            map (\<lambda>r. spec_location (reading.location r) (request_location bulk))
              (filter (reaches_store authId) rs)"
      by (simp add: n spec_location_def split: option.splits cong: map_cong)
    with new(1) n show ?thesis by blast
  qed
  from 1 2 show ?thesis by blast
qed

theorem location_rule_witness:
  "telemetrySchema sample_env [] (reading_json ''esp-1'' ''ph'' 7 [(''location'', JStr ''tank'')]) =
     Inr (sample_reading ''esp-1'' ''ph'' 7 None (Some ''tank''))
   \<and> (\<exists>d. calls (snd (ingest_handler sample_env sample_auth
               (reading_json ''esp-1'' ''ph'' 7 [(''location'', JStr ''tank'')]) world0)) = [d]
         \<and> document.location d = ''tank'')
   \<and> bulkTelemetrySchema sample_env sample_batch = Inr sample_readings
   \<and> (\<exists>new. calls (snd (ingest_bulk_handler sample_env sample_auth sample_batch world0)) = new
         \<and> map document.location new = [''unknown'', ''tank'', ''unknown''])"
proof -
  let ?body = "reading_json ''esp-1'' ''ph'' 7 [(''location'', JStr ''tank'')]"
  have v: "telemetrySchema sample_env [] ?body = Inr (sample_reading ''esp-1'' ''ph'' 7 None (Some ''tank''))"
    by code_simp
  have r: "reaches_store sample_auth (sample_reading ''esp-1'' ''ph'' 7 None (Some ''tank''))"
    by code_simp
  have l: "spec_location (reading.location (sample_reading ''esp-1'' ''ph'' 7 None (Some ''tank'')))
             (request_location ?body) = ''tank''"
    by code_simp
  have f: "map (\<lambda>r. spec_location (reading.location r) (request_location sample_batch))
             (filter (reaches_store sample_auth) sample_readings) = [''unknown'', ''tank'', ''unknown'']"
    by code_simp
  note t = location_rule [of sample_env ?body sample_auth world0 sample_batch]
  from t v r l have 1: "\<exists>d. calls (snd (ingest_handler sample_env sample_auth ?body world0)) = [d]
         \<and> document.location d = ''tank''"
    by (auto simp: world0_def)
  from t sample_batch_valid f
  have 2: "\<exists>new. calls (snd (ingest_bulk_handler sample_env sample_auth sample_batch world0)) = new
         \<and> map document.location new = [''unknown'', ''tank'', ''unknown'']"
    by (auto simp: world0_def)
  from v 1 sample_batch_valid 2 show ?thesis by (intro conjI)
qed

text \<open>
  Why a batch never has a location of its own: a bulk body with any key beside
  \<^verbatim>\<open>readings\<close> is answered with 400, and the store is not called. On the sample
  batch that carries the location \<^verbatim>\<open>lab\<close> beside its readings, Joi reports the key;
  the same reading sent without it is stored with the location \<^verbatim>\<open>unknown\<close>.
\<close>

lemma bulk_location_key_rejected:
  assumes "map_of fs ''location'' = Some x"
  shows "\<exists>e. ingest_bulk_handler env authId (JObj fs) w =
              (ErrorJson 400 ''Invalid bulk telemetry data'' ''VALIDATION_ERROR'' (Some [e]), w)"
  using bulk_unknown_key [OF assms, of env] by (auto simp: ingest_bulk_handler_invalid)

lemma sample_batch_with_location_rejected:
  "ingest_bulk_handler sample_env sample_auth sample_batch_with_location world0 =
     (ErrorJson 400 ''Invalid bulk telemetry data'' ''VALIDATION_ERROR''
        (Some [JoiError [Key ''location''] ''object.unknown'']), world0)"
  by code_simp

lemma sample_batch_single_location:
  "map document.location
     (calls (snd (ingest_bulk_handler sample_env sample_auth sample_batch_single world0))) =
     [''unknown'']"
  by code_simp

section \<open>Sensor types\<close>

lemma schema_sensorType_Inr:
  "schema_sensorType v = Inr s \<Longrightarrow> v = Some (JStr s) \<and> s \<in> set allowedSensorTypes"
  by (auto simp: schema_sensorType_def split: option.splits json.splits if_splits)

lemma schema_sensorType_Inl:
  "schema_sensorType v = Inl k \<Longrightarrow> k = (if v = None then ''any.required'' else ''any.only'')"
  by (auto simp: schema_sensorType_def split: option.splits json.splits if_splits)

lemma telemetrySchema_sensorType:
  assumes "map_of fs ''sensorType'' \<notin> Some ` JStr ` set allowedSensorTypes"
  shows "\<exists>e. telemetrySchema env p (JObj fs) = Inl e
           \<and> (\<forall>d. schema_deviceId (map_of fs ''deviceId'') = Inr d \<longrightarrow>
                 e = JoiError (p @ [Key ''sensorType''])
                       (if map_of fs ''sensorType'' = None then ''any.required'' else ''any.only''))"
proof (cases "schema_sensorType (map_of fs ''sensorType'')")
  case (Inl k)
  from schema_sensorType_Inl [OF Inl] Inl show ?thesis
    by (auto simp: telemetrySchema_def joi_object_JObj split: sum.splits)
next
  case (Inr s)
  from schema_sensorType_Inr [OF Inr] assms show ?thesis by auto
qed

lemma authenticateToken_Inl:
  "authenticateToken env hdr w = (Inl r, w') \<Longrightarrow>
     r = ErrorJson 401 ''Access token required'' ''MISSING_TOKEN'' None
     \<or> r = ErrorJson 403 ''Invalid or expired token'' ''INVALID_TOKEN'' None"
  by (auto simp: authenticateToken_def Let_def split: option.splits prod.splits sum.splits if_splits)

text \<open>
  Claim C5. A single-reading request whose body has a sensor type outside the
  enumeration (or none) is answered with 400 and the code VALIDATION_ERROR, and the state
  is returned as it was: no store call is made. When the device id of the body is valid,
  the reported Joi error is the one of \<^verbatim>\<open>sensorType\<close>. On the route
  (\<open>authenticateToken\<close>, then the handler), whatever the token, the store is not called
  and the response is an error with status 400, 401 or 403.
\<close>

theorem invalid_sensor_type_rejected:
  assumes "map_of fs ''sensorType'' \<notin> Some ` JStr ` set allowedSensorTypes"
  shows "(\<exists>e. ingest_handler env authId (JObj fs) w =
              (ErrorJson 400 ''Invalid telemetry data'' ''VALIDATION_ERROR'' (Some [e]), w)
            \<and> (\<forall>d. schema_deviceId (map_of fs ''deviceId'') = Inr d \<longrightarrow>
                  e = JoiError [Key ''sensorType'']
                        (if map_of fs ''sensorType'' = None then ''any.required'' else ''any.only'')))
       \<and> calls (snd (post_ingest env hdr (JObj fs) w)) = calls w
       \<and> (\<exists>status msg c details.
             fst (post_ingest env hdr (JObj fs) w) = ErrorJson status msg c details
             \<and> status \<in> {400, 401, 403})"
proof -
  obtain e where e: "telemetrySchema env [] (JObj fs) = Inl e"
    "\<forall>d. schema_deviceId (map_of fs ''deviceId'') = Inr d \<longrightarrow>
         e = JoiError [Key ''sensorType'']
               (if map_of fs ''sensorType'' = None then ''any.required'' else ''any.only'')"
    using telemetrySchema_sensorType [OF assms, of env "[]"] by auto
  have h: "ingest_handler env a (JObj fs) w' =
             (ErrorJson 400 ''Invalid telemetry data'' ''VALIDATION_ERROR'' (Some [e]), w')" for a w'
    using e(1) by (rule ingest_handler_invalid)
  obtain x w1 where auth: "authenticateToken env hdr w = (x, w1)"
    by (cases "authenticateToken env hdr w")
  have c: "calls w1 = calls w"
    using authenticateToken_calls [of env hdr w] auth by simp
  have route: "calls (snd (post_ingest env hdr (JObj fs) w)) = calls w
       \<and> (\<exists>status msg c details.
             fst (post_ingest env hdr (JObj fs) w) = ErrorJson status msg c details
             \<and> status \<in> {400, 401, 403})"
  proof (cases x)
    case (Inl r)
    with auth authenticateToken_Inl [of env hdr w r w1] c show ?thesis
      by (auto simp: post_ingest_def)
  next
    case (Inr a)
    with auth c h show ?thesis by (simp add: post_ingest_def)
  qed
  from h [of authId w] e(2) route show ?thesis by blast
qed

theorem invalid_sensor_type_rejected_witness:
  "map_of sample_bad_sensor ''sensorType'' \<notin> Some ` JStr ` set allowedSensorTypes
   \<and> ingest_handler sample_env sample_auth (JObj sample_bad_sensor) world0 =
       (ErrorJson 400 ''Invalid telemetry data'' ''VALIDATION_ERROR''
          (Some [JoiError [Key ''sensorType''] ''any.only'']), world0)
   \<and> calls (snd (post_ingest sample_env sample_header (JObj sample_bad_sensor) world0)) = calls world0"
proof -
  have h: "map_of sample_bad_sensor ''sensorType'' \<notin> Some ` JStr ` set allowedSensorTypes"
    by (simp add: sample_bad_sensor_def allowedSensorTypes_def)
  have d: "schema_deviceId (map_of sample_bad_sensor ''deviceId'') = Inr ''esp-1''"
    by code_simp
  have n: "map_of sample_bad_sensor ''sensorType'' \<noteq> None"
    by (simp add: sample_bad_sensor_def)
  note t = invalid_sensor_type_rejected [OF h, of sample_env sample_auth world0 sample_header]
  from t d n have 1: "ingest_handler sample_env sample_auth (JObj sample_bad_sensor) world0 =
       (ErrorJson 400 ''Invalid telemetry data'' ''VALIDATION_ERROR''
          (Some [JoiError [Key ''sensorType''] ''any.only'']), world0)"
    by auto
  from t have 2: "calls (snd (post_ingest sample_env sample_header (JObj sample_bad_sensor) world0)) = calls world0"
    by blast
  from h 1 2 show ?thesis by (intro conjI)
qed

section \<open>Timestamps\<close>

lemma telemetrySchema_timestamp:
  "telemetrySchema env p (JObj fs) = Inr v \<Longrightarrow>
     schema_timestamp env (map_of fs ''timestamp'') = Inr (reading.timestamp v)"
  by (auto simp: telemetrySchema_def joi_object_JObj split: sum.splits option.splits)

lemma telemetrySchema_timestamp_Inl:
  "schema_timestamp env (map_of fs ''timestamp'') = Inl x \<Longrightarrow>
     \<exists>e. telemetrySchema env p (JObj fs) = Inl e"
  by (auto simp: telemetrySchema_def joi_object_JObj split: sum.splits option.splits)

lemma schema_items_Inl:
  "x \<in> set xs \<Longrightarrow> (\<And>p. \<exists>e. telemetrySchema env p x = Inl e) \<Longrightarrow>
     \<exists>e. schema_items env i xs = Inl e"
proof (induction xs arbitrary: i)
  case Nil
  then show ?case by simp
next
  case (Cons y ys)
  show ?case
  proof (cases "telemetrySchema env [Key ''readings'', Index i] y")
    case (Inl e)
    then show ?thesis by simp
  next
    case (Inr r)
    with Cons.prems(2) [of "[Key ''readings'', Index i]"] have "x \<noteq> y" by auto
    with Cons.prems(1) have "x \<in> set ys" by simp
    from Cons.IH [OF this Cons.prems(2), of "Suc i"] Inr show ?thesis by auto
  qed
qed

lemma bulkTelemetrySchema_item_Inl:
  assumes "map_of bs ''readings'' = Some (JArr xs)" and "x \<in> set xs"
    and "\<And>p. \<exists>e. telemetrySchema env p x = Inl e"
  shows "\<exists>e. bulkTelemetrySchema env (JObj bs) = Inl e"
  using schema_items_Inl [OF assms(2,3), of 0] assms(1)
  by (auto simp: bulkTelemetrySchema_def joi_object_JObj)

lemma base_codes:
  "base_code ''string.base''" "base_code ''number.base''"
  "\<not> base_code ''string.empty''" "\<not> base_code ''string.isoDate''"
  "\<not> base_code ''number.unsafe''" "\<not> base_code ''number.positive''"
  by (simp_all add: base_code_def)

lemmas schema_timestamp_defs =
  schema_timestamp_def schema_isoDate_def schema_positive_def joi_string_def joi_number_def
  alternatives_error_def base_codes

lemma schema_timestamp_number:
  "schema_timestamp env (Some (JNum n)) =
     (if n > 9007199254740991 \<or> n < - 9007199254740991 then Inl ''number.unsafe''
      else if 0 < n then Inr (Some (TsNumber n))
      else Inl ''number.positive'')"
  by (simp add: schema_timestamp_defs)

lemma schema_timestamp_iso:
  "s \<noteq> [] \<Longrightarrow> joi_isoDate env s = Some t \<Longrightarrow>
     schema_timestamp env (Some (JStr s)) = Inr (Some (TsString t))"
  by (simp add: schema_timestamp_defs)

lemma schema_timestamp_numeric_string:
  "s = [] \<or> joi_isoDate env s = None \<Longrightarrow> joi_number_from_string env s = Some (Inr n) \<Longrightarrow>
     schema_timestamp env (Some (JStr s)) =
       (if 0 < n \<and> n \<le> 9007199254740991 then Inr (Some (TsNumber n))
        else Inl ''alternatives.match'')"
  by (auto simp: schema_timestamp_defs)

lemma schema_timestamp_unsafe_string:
  "s = [] \<or> joi_isoDate env s = None \<Longrightarrow>
   joi_number_from_string env s = Some (Inl ''number.unsafe'') \<Longrightarrow>
     schema_timestamp env (Some (JStr s)) = Inl ''alternatives.match''"
  by (auto simp: schema_timestamp_defs)

lemma schema_timestamp_other_string:
  "s = [] \<or> joi_isoDate env s = None \<Longrightarrow> joi_number_from_string env s = None \<Longrightarrow>
     schema_timestamp env (Some (JStr s)) =
       Inl (if s = [] then ''string.empty'' else ''string.isoDate'')"
  by (auto simp: schema_timestamp_defs)

lemma schema_timestamp_types:
  "schema_timestamp env (Some JNull) = Inl ''alternatives.types''"
  "schema_timestamp env (Some (JBool b)) = Inl ''alternatives.types''"
  "schema_timestamp env (Some (JArr xs)) = Inl ''alternatives.types''"
  "schema_timestamp env (Some (JObj ps)) = Inl ''alternatives.types''"
  by (simp_all add: schema_timestamp_defs)

lemma schema_timestamp_positive:
  "schema_timestamp env t = Inr (Some (TsNumber m)) \<Longrightarrow> 0 < m \<and> m \<le> 9007199254740991"
  by (auto simp: schema_timestamp_def schema_isoDate_def schema_positive_def joi_number_def
      split: option.splits sum.splits json.splits if_splits)

lemma schema_timestamp_string:
  "schema_timestamp env t = Inr (Some (TsString x)) \<Longrightarrow>
     \<exists>s. t = Some (JStr s) \<and> s \<noteq> [] \<and> joi_isoDate env s = Some x"
  by (auto simp: schema_timestamp_def schema_isoDate_def schema_positive_def joi_string_def
      split: option.splits sum.splits json.splits if_splits)

text \<open>Whole seconds are multiplied exactly: integers below \<open>2 ^ 53\<close> are doubles.\<close>

lemma bit_length_le: "n < 2 ^ m \<Longrightarrow> bit_length n \<le> m"
proof (induction m arbitrary: n)
  case 0
  then show ?case by (simp add: bit_length.simps)
next
  case (Suc m)
  have "n div 2 < 2 ^ m" using Suc.prems by simp
  from Suc.IH [OF this] show ?case by (subst bit_length.simps) simp
qed

lemma bit_length_one: "bit_length 1 = 1"
  by (simp add: bit_length.simps)

lemma floor_log2_int:
  assumes "0 < k" and "k < 2 ^ 53"
  shows "floor_log2 (of_int k) \<le> 52"
proof -
  have "\<bar>of_int k :: rat\<bar> = of_int k" using assms(1) by simp
  moreover have "bit_length k \<le> 53" using assms(2) by (rule bit_length_le)
  ultimately show ?thesis
    by (simp add: floor_log2_def Let_def bit_length_one)
qed

lemma round_half_even_int: "round_half_even (of_int j) = j"
  by (simp add: round_half_even_def)

lemma round_scaled:
  assumes "q \<le> 0"
  shows "of_int (round_half_even (of_int k / pow2 q)) * pow2 q = of_int k"
proof -
  have p: "pow2 q = 1 / 2 ^ nat (- q)"
    using assms by (cases "q = 0") (simp_all add: pow2_def)
  have "of_int k / pow2 q = (of_int (k * 2 ^ nat (- q)) :: rat)"
    by (simp add: p)
  then have "round_half_even (of_int k / pow2 q) = k * 2 ^ nat (- q)"
    by (simp only: round_half_even_int)
  then show ?thesis by (simp add: p)
qed

lemma to_double_int:
  assumes "0 < k" and "k < 2 ^ 53"
  shows "to_double (of_int k) = of_int k"
proof -
  have "max (floor_log2 (of_int k) - 52) (- 1074) \<le> 0"
    using floor_log2_int [OF assms] by simp
  from round_scaled [OF this] assms(1) show ?thesis
    by (simp add: to_double_def Let_def)
qed

lemma js_times_seconds:
  assumes "0 < k" and "k \<le> 8640000000000"
  shows "js_times (of_int k) 1000 = of_int (k * 1000)"
proof -
  have 1: "to_double (of_int k) = of_int k"
    using assms by (intro to_double_int) simp_all
  have 2: "to_double 1000 = 1000"
    using to_double_int [of 1000] by simp
  have 3: "to_double (of_int (k * 1000)) = of_int (k * 1000)"
    using assms by (intro to_double_int) simp_all
  show ?thesis
    unfolding js_times_def 1 2 using 3 by simp
qed

lemma new_Date_int:
  "0 \<le> j \<Longrightarrow> j \<le> 8640000000000000 \<Longrightarrow> new_Date (of_int j) = Some j"
  by (simp add: new_Date_def)

lemma new_Date_seconds:
  assumes "0 < k" and "k \<le> 8640000000000"
  shows "new_Date (js_times (of_int k) 1000) = Some (k * 1000)"
  unfolding js_times_seconds [OF assms] using assms by (intro new_Date_int) simp_all

text \<open>What the two handlers do with the timestamp of a reading of the authenticated device.\<close>

lemma store_reading_timestamp:
  assumes "normalize_timestamp env (reading.timestamp r) w = (Inr ts, w1)"
  shows "\<exists>d. calls (snd (store_reading env r w)) = calls w @ [d] \<and> document.timestamp d = ts"
  using store_reading_Inr [OF assms] by blast

lemma ingest_handler_timestamp:
  assumes v: "telemetrySchema env [] body = Inr v"
    and a: "Some (JStr (reading.deviceId v)) = authId"
    and n: "normalize_timestamp env (reading.timestamp v) w = (Inr ts, w1)"
  shows "\<exists>d. calls (snd (ingest_handler env authId body w)) = calls w @ [d]
           \<and> document.timestamp d = ts"
proof -
  have "calls (snd (ingest_handler env authId body w)) = calls (snd (store_reading env v w))"
    using v a by (auto simp: ingest_handler_def split: prod.splits sum.splits)
  with store_reading_timestamp [OF n] show ?thesis by simp
qed

lemma bulk_item_timestamp:
  assumes a: "Some (JStr (reading.deviceId r)) = authId"
    and n: "normalize_timestamp env (reading.timestamp r) w = (Inr ts, w1)"
  shows "\<exists>d. calls (snd (bulk_item env authId r w)) = calls w @ [d]
           \<and> document.timestamp d = ts"
proof -
  have "calls (snd (bulk_item env authId r w)) = calls (snd (store_reading env r w))"
    using a by (auto simp: bulk_item_def split: prod.splits sum.splits)
  with store_reading_timestamp [OF n] show ?thesis by simp
qed

lemma normalize_timestamp_cases:
  "normalize_timestamp env ts w =
     (case ts of
        None \<Rightarrow> (Inr (toISOString env (clock env (clock_reads w))), snd (Date_now env w))
      | Some (TsString iso_text) \<Rightarrow>
          if iso_text = []
            then (Inr (toISOString env (clock env (clock_reads w))), snd (Date_now env w))
          else (Inr iso_text, w)
      | Some (TsNumber m) \<Rightarrow>
          (case new_Date (js_times m 1000) of
             Some t \<Rightarrow> (Inr (toISOString env t), w)
           | None \<Rightarrow> (Inl (Error ''Invalid time value'' None), w)))"
  by (simp add: normalize_timestamp_def current_time_def Date_now_def Date_toISOString_def
      split: option.splits timestamp_value.splits)

lemma ingest_handler_RangeError:
  assumes v: "telemetrySchema env [] body = Inr v"
    and a: "Some (JStr (reading.deviceId v)) = authId"
    and n: "normalize_timestamp env (reading.timestamp v) w = (Inl (Error ''Invalid time value'' None), w)"
  shows "ingest_handler env authId body w =
           (ErrorJson 500 ''Internal server error'' ''INGESTION_ERROR'' None, w)"
  using v a store_reading_Inl [OF n] by (simp add: ingest_handler_def ingest_catch_def)

lemma bulk_item_RangeError:
  assumes a: "Some (JStr (reading.deviceId r)) = authId"
    and n: "normalize_timestamp env (reading.timestamp r) w = (Inl (Error ''Invalid time value'' None), w)"
  shows "bulk_item env authId r w = (Inl (Failure r ''Invalid time value''), w)"
  using a store_reading_Inl [OF n] by (simp add: bulk_item_def)

lemma ingest_handler_timestamp_cases:
  assumes v: "telemetrySchema env [] body = Inr v"
    and a: "Some (JStr (reading.deviceId v)) = authId"
  shows "case reading.timestamp v of
           None \<Rightarrow>
             \<exists>d. calls (snd (ingest_handler env authId body w)) = calls w @ [d]
                 \<and> document.timestamp d = toISOString env (clock env (clock_reads w))
         | Some (TsString iso_text) \<Rightarrow>
             \<exists>d. calls (snd (ingest_handler env authId body w)) = calls w @ [d]
                 \<and> document.timestamp d =
                     (if iso_text = [] then toISOString env (clock env (clock_reads w))
                      else iso_text)
         | Some (TsNumber m) \<Rightarrow>
             (case new_Date (js_times m 1000) of
                Some millis \<Rightarrow>
                  \<exists>d. calls (snd (ingest_handler env authId body w)) = calls w @ [d]
                      \<and> document.timestamp d = toISOString env millis
              | None \<Rightarrow>
                  ingest_handler env authId body w =
                    (ErrorJson 500 ''Internal server error'' ''INGESTION_ERROR'' None, w))"
proof -
  note h = ingest_handler_timestamp [OF v a, of w]
  note e = ingest_handler_RangeError [OF v a, of w]
  show ?thesis
  proof (cases "reading.timestamp v")
    case None
    then have "normalize_timestamp env (reading.timestamp v) w =
        (Inr (toISOString env (clock env (clock_reads w))), snd (Date_now env w))"
      by (simp add: normalize_timestamp_cases)
    from h [OF this] None show ?thesis by simp
  next
    case (Some tv)
    show ?thesis
    proof (cases tv)
      case (TsString iso_text)
      with Some have "normalize_timestamp env (reading.timestamp v) w =
          (Inr (if iso_text = [] then toISOString env (clock env (clock_reads w)) else iso_text),
           if iso_text = [] then snd (Date_now env w) else w)"
        by (simp add: normalize_timestamp_cases)
      from h [OF this] Some TsString show ?thesis by simp
    next
      case (TsNumber m)
      show ?thesis
      proof (cases "new_Date (js_times m 1000)")
        case None
        with Some TsNumber have "normalize_timestamp env (reading.timestamp v) w =
            (Inl (Error ''Invalid time value'' None), w)"
          by (simp add: normalize_timestamp_cases)
        from e [OF this] Some TsNumber None show ?thesis by simp
      next
        case (Some millis)
        with \<open>reading.timestamp v = Some tv\<close> TsNumber
        have "normalize_timestamp env (reading.timestamp v) w = (Inr (toISOString env millis), w)"
          by (simp add: normalize_timestamp_cases)
        from h [OF this] \<open>reading.timestamp v = Some tv\<close> TsNumber Some show ?thesis by simp
      qed
    qed
  qed
qed

lemma bulk_item_timestamp_cases:
  assumes a: "Some (JStr (reading.deviceId r)) = authId"
  shows "case reading.timestamp r of
           None \<Rightarrow>
             \<exists>d. calls (snd (bulk_item env authId r w)) = calls w @ [d]
                 \<and> document.timestamp d = toISOString env (clock env (clock_reads w))
         | Some (TsString iso_text) \<Rightarrow>
             \<exists>d. calls (snd (bulk_item env authId r w)) = calls w @ [d]
                 \<and> document.timestamp d =
                     (if iso_text = [] then toISOString env (clock env (clock_reads w))
                      else iso_text)
         | Some (TsNumber m) \<Rightarrow>
             (case new_Date (js_times m 1000) of
                Some millis \<Rightarrow>
                  \<exists>d. calls (snd (bulk_item env authId r w)) = calls w @ [d]
                      \<and> document.timestamp d = toISOString env millis
              | None \<Rightarrow> bulk_item env authId r w = (Inl (Failure r ''Invalid time value''), w))"
proof -
  note h = bulk_item_timestamp [OF a, of env w]
  note e = bulk_item_RangeError [OF a, of env w]
  show ?thesis
  proof (cases "reading.timestamp r")
    case None
    then have "normalize_timestamp env (reading.timestamp r) w =
        (Inr (toISOString env (clock env (clock_reads w))), snd (Date_now env w))"
      by (simp add: normalize_timestamp_cases)
    from h [OF this] None show ?thesis by simp
  next
    case (Some tv)
    show ?thesis
    proof (cases tv)
      case (TsString iso_text)
      with Some have "normalize_timestamp env (reading.timestamp r) w =
          (Inr (if iso_text = [] then toISOString env (clock env (clock_reads w)) else iso_text),
           if iso_text = [] then snd (Date_now env w) else w)"
        by (simp add: normalize_timestamp_cases)
      from h [OF this] Some TsString show ?thesis by simp
    next
      case (TsNumber m)
      show ?thesis
      proof (cases "new_Date (js_times m 1000)")
        case None
        with Some TsNumber have "normalize_timestamp env (reading.timestamp r) w =
            (Inl (Error ''Invalid time value'' None), w)"
          by (simp add: normalize_timestamp_cases)
        from e [OF this] Some TsNumber None show ?thesis by simp
      next
        case (Some millis)
        with \<open>reading.timestamp r = Some tv\<close> TsNumber
        have "normalize_timestamp env (reading.timestamp r) w = (Inr (toISOString env millis), w)"
          by (simp add: normalize_timestamp_cases)
        from h [OF this] \<open>reading.timestamp r = Some tv\<close> TsNumber Some show ?thesis by simp
      qed
    qed
  qed
qed

text \<open>
  Claim C6, as the code has it. The schema admits as a timestamp: nothing; a number that
  is positive and at most 9007199254740991; a non-empty string that the ISO rule accepts;
  any other string that Joi converts to such a number. Every other value fails the
  schema, with the error that Joi's alternatives choose: zero and the negative numbers
  (\<^verbatim>\<open>number.positive\<close>), numbers beyond the safe integers (\<^verbatim>\<open>number.unsafe\<close>),
  strings that are the text of a number that is not admitted or that Joi refuses to
  convert (\<^verbatim>\<open>alternatives.match\<close>), the other strings (\<^verbatim>\<open>string.empty\<close>,
  \<^verbatim>\<open>string.isoDate\<close>), and null, booleans, arrays and objects
  (\<^verbatim>\<open>alternatives.types\<close>). A request with such a value, alone or
  as one reading of a batch, is answered with 400 and the code VALIDATION_ERROR, and the
  store is not called.

  For a valid reading of the authenticated device, the document handed to the store
  carries: for no timestamp, the ISO text of the clock's reading at that moment; for an
  ISO string, the string as the schema returns it; for a number \<open>m\<close> (given as such or
  converted from a string), the ISO text of the date \<^verbatim>\<open>new Date(m * 1000)\<close>, that is
  of the double product cut to whole milliseconds. When that date is invalid (the
  product is beyond 8640000000000000) nothing is handed to the store: the single handler
  answers 500 and the code INGESTION_ERROR, the loop of the bulk handler records a
  failure for the reading. For a whole number \<open>k\<close> of seconds up to 8640000000000 the
  product is exact, and the date is \<open>k * 1000\<close> milliseconds after the epoch.
\<close>

theorem timestamp_normalization:
  "schema_timestamp env None = Inr None
   \<and> schema_timestamp env (Some (JNum n)) =
       (if n > 9007199254740991 \<or> n < - 9007199254740991 then Inl ''number.unsafe''
        else if 0 < n then Inr (Some (TsNumber n))
        else Inl ''number.positive'')
   \<and> (s \<noteq> [] \<and> joi_isoDate env s = Some t \<longrightarrow>
        schema_timestamp env (Some (JStr s)) = Inr (Some (TsString t)))
   \<and> ((s = [] \<or> joi_isoDate env s = None) \<and> joi_number_from_string env s = Some (Inr c) \<longrightarrow>
        schema_timestamp env (Some (JStr s)) =
          (if 0 < c \<and> c \<le> 9007199254740991 then Inr (Some (TsNumber c))
           else Inl ''alternatives.match''))
   \<and> ((s = [] \<or> joi_isoDate env s = None)
        \<and> joi_number_from_string env s = Some (Inl ''number.unsafe'') \<longrightarrow>
        schema_timestamp env (Some (JStr s)) = Inl ''alternatives.match'')
   \<and> ((s = [] \<or> joi_isoDate env s = None) \<and> joi_number_from_string env s = None \<longrightarrow>
        schema_timestamp env (Some (JStr s)) =
          Inl (if s = [] then ''string.empty'' else ''string.isoDate''))
   \<and> schema_timestamp env (Some JNull) = Inl ''alternatives.types''
   \<and> schema_timestamp env (Some (JBool b)) = Inl ''alternatives.types''
   \<and> schema_timestamp env (Some (JArr ys)) = Inl ''alternatives.types''
   \<and> schema_timestamp env (Some (JObj ps)) = Inl ''alternatives.types''
   \<and> (\<forall>x. schema_timestamp env (map_of fs ''timestamp'') = Inl x \<longrightarrow>
        (\<exists>e. ingest_handler env authId (JObj fs) w =
                (ErrorJson 400 ''Invalid telemetry data'' ''VALIDATION_ERROR'' (Some [e]), w))
        \<and> (\<forall>bs xs. map_of bs ''readings'' = Some (JArr xs) \<and> JObj fs \<in> set xs \<longrightarrow>
              (\<exists>e. ingest_bulk_handler env authId (JObj bs) w =
                      (ErrorJson 400 ''Invalid bulk telemetry data'' ''VALIDATION_ERROR''
                         (Some [e]), w))))
   \<and> (\<forall>v. telemetrySchema env [] (JObj fs) = Inr v \<and> Some (JStr (reading.deviceId v)) = authId \<longrightarrow>
        schema_timestamp env (map_of fs ''timestamp'') = Inr (reading.timestamp v)
        \<and> (case reading.timestamp v of
              None \<Rightarrow>
                \<exists>d. calls (snd (ingest_handler env authId (JObj fs) w)) = calls w @ [d]
                    \<and> document.timestamp d = toISOString env (clock env (clock_reads w))
            | Some (TsString iso_text) \<Rightarrow>
                \<exists>d. calls (snd (ingest_handler env authId (JObj fs) w)) = calls w @ [d]
                    \<and> document.timestamp d =
                        (if iso_text = [] then toISOString env (clock env (clock_reads w))
                         else iso_text)
            | Some (TsNumber m) \<Rightarrow>
                (case new_Date (js_times m 1000) of
                   Some millis \<Rightarrow>
                     \<exists>d. calls (snd (ingest_handler env authId (JObj fs) w)) = calls w @ [d]
                         \<and> document.timestamp d = toISOString env millis
                 | None \<Rightarrow>
                     ingest_handler env authId (JObj fs) w =
                       (ErrorJson 500 ''Internal server error'' ''INGESTION_ERROR'' None, w))))
   \<and> (Some (JStr (reading.deviceId r)) = authId \<longrightarrow>
        (case reading.timestamp r of
           None \<Rightarrow>
             \<exists>d. calls (snd (bulk_item env authId r w)) = calls w @ [d]
                 \<and> document.timestamp d = toISOString env (clock env (clock_reads w))
         | Some (TsString iso_text) \<Rightarrow>
             \<exists>d. calls (snd (bulk_item env authId r w)) = calls w @ [d]
                 \<and> document.timestamp d =
                     (if iso_text = [] then toISOString env (clock env (clock_reads w))
                      else iso_text)
         | Some (TsNumber m) \<Rightarrow>
             (case new_Date (js_times m 1000) of
                Some millis \<Rightarrow>
                  \<exists>d. calls (snd (bulk_item env authId r w)) = calls w @ [d]
                      \<and> document.timestamp d = toISOString env millis
              | None \<Rightarrow> bulk_item env authId r w = (Inl (Failure r ''Invalid time value''), w))))
   \<and> (\<forall>k. 0 < k \<and> k \<le> 8640000000000 \<longrightarrow>
        new_Date (js_times (of_int k) 1000) = Some (k * 1000))"
proof -
  have 1: "schema_timestamp env None = Inr None"
    by (simp add: schema_timestamp_def)
  note 2 = schema_timestamp_number [of env n]
  have 3: "s \<noteq> [] \<and> joi_isoDate env s = Some t \<longrightarrow>
        schema_timestamp env (Some (JStr s)) = Inr (Some (TsString t))"
    using schema_timestamp_iso [of s env t] by blast
  have 4: "(s = [] \<or> joi_isoDate env s = None) \<and> joi_number_from_string env s = Some (Inr c) \<longrightarrow>
        schema_timestamp env (Some (JStr s)) =
          (if 0 < c \<and> c \<le> 9007199254740991 then Inr (Some (TsNumber c))
           else Inl ''alternatives.match'')"
    "(s = [] \<or> joi_isoDate env s = None)
        \<and> joi_number_from_string env s = Some (Inl ''number.unsafe'') \<longrightarrow>
        schema_timestamp env (Some (JStr s)) = Inl ''alternatives.match''"
    using schema_timestamp_numeric_string [of s env c] schema_timestamp_unsafe_string [of s env]
    by blast+
  have 5: "(s = [] \<or> joi_isoDate env s = None) \<and> joi_number_from_string env s = None \<longrightarrow>
        schema_timestamp env (Some (JStr s)) =
          Inl (if s = [] then ''string.empty'' else ''string.isoDate'')"
    using schema_timestamp_other_string [of s env] by blast
  note 6 = schema_timestamp_types(1) [of env] schema_timestamp_types(2) [of env b]
    schema_timestamp_types(3) [of env ys] schema_timestamp_types(4) [of env ps]
  have 7: "\<forall>x. schema_timestamp env (map_of fs ''timestamp'') = Inl x \<longrightarrow>
        (\<exists>e. ingest_handler env authId (JObj fs) w =
                (ErrorJson 400 ''Invalid telemetry data'' ''VALIDATION_ERROR'' (Some [e]), w))
        \<and> (\<forall>bs xs. map_of bs ''readings'' = Some (JArr xs) \<and> JObj fs \<in> set xs \<longrightarrow>
              (\<exists>e. ingest_bulk_handler env authId (JObj bs) w =
                      (ErrorJson 400 ''Invalid bulk telemetry data'' ''VALIDATION_ERROR''
                         (Some [e]), w)))"
  proof (intro allI impI conjI)
    fix x assume x: "schema_timestamp env (map_of fs ''timestamp'') = Inl x"
    from telemetrySchema_timestamp_Inl [OF x, of "[]"] ingest_handler_invalid
    show "\<exists>e. ingest_handler env authId (JObj fs) w =
                (ErrorJson 400 ''Invalid telemetry data'' ''VALIDATION_ERROR'' (Some [e]), w)"
      by blast
    fix bs xs assume b: "map_of bs ''readings'' = Some (JArr xs) \<and> JObj fs \<in> set xs"
    have "\<exists>e. bulkTelemetrySchema env (JObj bs) = Inl e"
      using b telemetrySchema_timestamp_Inl [OF x]
      by (intro bulkTelemetrySchema_item_Inl [of bs xs "JObj fs"]) simp_all
    with ingest_bulk_handler_invalid
    show "\<exists>e. ingest_bulk_handler env authId (JObj bs) w =
                      (ErrorJson 400 ''Invalid bulk telemetry data'' ''VALIDATION_ERROR''
                         (Some [e]), w)"
      by blast
  qed
  have 8: "\<forall>v. telemetrySchema env [] (JObj fs) = Inr v \<and> Some (JStr (reading.deviceId v)) = authId \<longrightarrow>
        schema_timestamp env (map_of fs ''timestamp'') = Inr (reading.timestamp v)
        \<and> (case reading.timestamp v of
              None \<Rightarrow>
                \<exists>d. calls (snd (ingest_handler env authId (JObj fs) w)) = calls w @ [d]
                    \<and> document.timestamp d = toISOString env (clock env (clock_reads w))
            | Some (TsString iso_text) \<Rightarrow>
                \<exists>d. calls (snd (ingest_handler env authId (JObj fs) w)) = calls w @ [d]
                    \<and> document.timestamp d =
                        (if iso_text = [] then toISOString env (clock env (clock_reads w))
                         else iso_text)
            | Some (TsNumber m) \<Rightarrow>
                (case new_Date (js_times m 1000) of
                   Some millis \<Rightarrow>
                     \<exists>d. calls (snd (ingest_handler env authId (JObj fs) w)) = calls w @ [d]
                         \<and> document.timestamp d = toISOString env millis
                 | None \<Rightarrow>
                     ingest_handler env authId (JObj fs) w =
                       (ErrorJson 500 ''Internal server error'' ''INGESTION_ERROR'' None, w)))"
    using telemetrySchema_timestamp [of env "[]" fs]
      ingest_handler_timestamp_cases [of env "JObj fs" _ authId w]
    by blast
  have 9: "Some (JStr (reading.deviceId r)) = authId \<longrightarrow>
        (case reading.timestamp r of
           None \<Rightarrow>
             \<exists>d. calls (snd (bulk_item env authId r w)) = calls w @ [d]
                 \<and> document.timestamp d = toISOString env (clock env (clock_reads w))
         | Some (TsString iso_text) \<Rightarrow>
             \<exists>d. calls (snd (bulk_item env authId r w)) = calls w @ [d]
                 \<and> document.timestamp d =
                     (if iso_text = [] then toISOString env (clock env (clock_reads w))
                      else iso_text)
         | Some (TsNumber m) \<Rightarrow>
             (case new_Date (js_times m 1000) of
                Some millis \<Rightarrow>
                  \<exists>d. calls (snd (bulk_item env authId r w)) = calls w @ [d]
                      \<and> document.timestamp d = toISOString env millis
              | None \<Rightarrow> bulk_item env authId r w = (Inl (Failure r ''Invalid time value''), w)))"
    using bulk_item_timestamp_cases [of r authId env w] by blast
  have 10: "\<forall>k. 0 < k \<and> k \<le> 8640000000000 \<longrightarrow>
        new_Date (js_times (of_int k) 1000) = Some (k * 1000)"
    using new_Date_seconds by blast
  from 1 2 3 4 5 6 7 8 9 10 show ?thesis by (intro conjI)
qed

theorem timestamp_normalization_witness:
  "schema_timestamp sample_env (Some (JNum (- 86400))) = Inl ''number.positive''
   \<and> (\<exists>e. ingest_handler sample_env sample_auth
             (JObj (sample_fields [(''timestamp'', JNum (- 86400))])) world0 =
           (ErrorJson 400 ''Invalid telemetry data'' ''VALIDATION_ERROR'' (Some [e]), world0))
   \<and> (\<exists>d. calls (snd (ingest_handler sample_env sample_auth
               (JObj (sample_fields [(''timestamp'', JNum 1700000000)])) world0)) = [d]
         \<and> document.timestamp d = ''2023-11-14T22:13:20.000Z'')
   \<and> (\<exists>d. calls (snd (ingest_handler sample_env sample_auth
               (JObj (sample_fields [(''timestamp'', JNum (1001 / 1000))])) world0)) = [d]
         \<and> document.timestamp d = ''1970-01-01T00:00:01.000Z'')
   \<and> (\<exists>d. calls (snd (ingest_handler sample_env sample_auth
               (JObj (sample_fields [(''timestamp'', JStr ''1700000000'')])) world0)) = [d]
         \<and> document.timestamp d = ''2023-11-14T22:13:20.000Z'')
   \<and> (\<exists>d. calls (snd (ingest_handler sample_env sample_auth
               (JObj (sample_fields [(''timestamp'', JStr ''2024-02-29T12:00:00.000Z'')])) world0)) = [d]
         \<and> document.timestamp d = ''2024-02-29T12:00:00.000Z'')
   \<and> (\<exists>d. calls (snd (ingest_handler sample_env sample_auth
               (JObj (sample_fields [])) (world0\<lparr>clock_reads := 60000\<rparr>))) = [d]
         \<and> document.timestamp d = ''2023-11-14T22:14:20.000Z'')
   \<and> ingest_handler sample_env sample_auth
         (JObj (sample_fields [(''timestamp'', JNum 10000000000000)])) world0 =
       (ErrorJson 500 ''Internal server error'' ''INGESTION_ERROR'' None, world0)
   \<and> schema_timestamp sample_env (Some (JStr ''2024-02-29T12:00:00.000Z'')) =
       Inr (Some (TsString ''2024-02-29T12:00:00.000Z''))
   \<and> schema_timestamp sample_env (Some (JStr ''1700000000'')) = Inr (Some (TsNumber 1700000000))
   \<and> schema_timestamp sample_env (Some (JStr ''yesterday'')) = Inl ''string.isoDate''
   \<and> schema_timestamp (sample_env\<lparr>joi_number_from_string := \<lambda>s. Some (Inl ''number.unsafe'')\<rparr>)
         (Some (JStr ''1700000000.0000000000001'')) = Inl ''alternatives.match''
   \<and> (\<exists>e. ingest_bulk_handler sample_env sample_auth
             (JObj [(''readings'', JArr [JObj (sample_fields [(''timestamp'', JNum (- 86400))])])])
             world0 =
           (ErrorJson 400 ''Invalid bulk telemetry data'' ''VALIDATION_ERROR'' (Some [e]), world0))
   \<and> (\<exists>d. calls (snd (bulk_item sample_env sample_auth
               (sample_reading ''esp-1'' ''temperature'' (43 / 2)
                  (Some (TsNumber 1700000000)) None) world0)) = [d]
         \<and> document.timestamp d = ''2023-11-14T22:13:20.000Z'')
   \<and> new_Date (js_times 1700000000 1000) = Some 1700000000000"
proof -
  let ?neg = "sample_fields [(''timestamp'', JNum (- 86400))]"
  let ?num = "sample_fields [(''timestamp'', JNum 1700000000)]"
  let ?frac = "sample_fields [(''timestamp'', JNum (1001 / 1000))]"
  let ?str = "sample_fields [(''timestamp'', JStr ''1700000000'')]"
  let ?iso = "sample_fields [(''timestamp'', JStr ''2024-02-29T12:00:00.000Z'')]"
  let ?none = "sample_fields []"
  let ?big = "sample_fields [(''timestamp'', JNum 10000000000000)]"
  let ?w = "world0\<lparr>clock_reads := 60000\<rparr>"
  let ?r = "sample_reading ''esp-1'' ''temperature'' (43 / 2)"
  have 1: "schema_timestamp sample_env (Some (JNum (- 86400))) = Inl ''number.positive''"
    using timestamp_normalization [of sample_env "- 86400"] by simp
  have "schema_timestamp sample_env (map_of ?neg ''timestamp'') = Inl ''number.positive''"
    using 1 by (simp add: sample_fields_def)
  with timestamp_normalization [where env = sample_env and fs = ?neg and authId = sample_auth
      and w = world0]
  have 2: "\<exists>e. ingest_handler sample_env sample_auth (JObj ?neg) world0 =
           (ErrorJson 400 ''Invalid telemetry data'' ''VALIDATION_ERROR'' (Some [e]), world0)"
    by blast
  have vn: "telemetrySchema sample_env [] (JObj ?num) = Inr (?r (Some (TsNumber 1700000000)) None)"
    by code_simp
  have vf: "telemetrySchema sample_env [] (JObj ?frac) = Inr (?r (Some (TsNumber (1001 / 1000))) None)"
    by code_simp
  have vs: "telemetrySchema sample_env [] (JObj ?str) = Inr (?r (Some (TsNumber 1700000000)) None)"
    by code_simp
  have vi: "telemetrySchema sample_env [] (JObj ?iso) =
              Inr (?r (Some (TsString ''2024-02-29T12:00:00.000Z'')) None)"
    by code_simp
  have vv: "telemetrySchema sample_env [] (JObj ?none) = Inr (?r None None)"
    by code_simp
  have vb: "telemetrySchema sample_env [] (JObj ?big) = Inr (?r (Some (TsNumber 10000000000000)) None)"
    by code_simp
  have a: "Some (JStr (reading.deviceId (?r ts l))) = sample_auth" for ts l
    by (simp add: sample_reading_def sample_auth_def)
  have ts: "reading.timestamp (?r x l) = x" for x l
    by (simp add: sample_reading_def)
  have dn: "new_Date (js_times 1700000000 1000) = Some 1700000000000"
    by code_simp
  have df: "new_Date (js_times (1001 / 1000) 1000) = Some 1000"
    by code_simp
  have db: "new_Date (js_times 10000000000000 1000) = None"
    by code_simp
  have tn: "toISOString sample_env 1700000000000 = ''2023-11-14T22:13:20.000Z''"
    by code_simp
  have tf: "toISOString sample_env 1000 = ''1970-01-01T00:00:01.000Z''"
    by code_simp
  have "clock sample_env 60000 = 1700000060000"
    by (simp add: sample_env_def)
  moreover have "toISOString sample_env 1700000060000 = ''2023-11-14T22:14:20.000Z''"
    by code_simp
  ultimately have tc: "toISOString sample_env (clock sample_env 60000) = ''2023-11-14T22:14:20.000Z''"
    by simp
  have c: "calls world0 = []" "calls ?w = []"
    by (simp_all add: world0_def)
  from timestamp_normalization [where env = sample_env and fs = ?num and authId = sample_auth
      and w = world0] vn a
  have 3: "\<exists>d. calls (snd (ingest_handler sample_env sample_auth (JObj ?num) world0)) = [d]
         \<and> document.timestamp d = ''2023-11-14T22:13:20.000Z''"
    by (simp add: ts dn tn c)
  from timestamp_normalization [where env = sample_env and fs = ?frac and authId = sample_auth
      and w = world0] vf a
  have 4: "\<exists>d. calls (snd (ingest_handler sample_env sample_auth (JObj ?frac) world0)) = [d]
         \<and> document.timestamp d = ''1970-01-01T00:00:01.000Z''"
    by (simp add: ts df tf c)
  from timestamp_normalization [where env = sample_env and fs = ?str and authId = sample_auth
      and w = world0] vs a
  have 5: "\<exists>d. calls (snd (ingest_handler sample_env sample_auth (JObj ?str) world0)) = [d]
         \<and> document.timestamp d = ''2023-11-14T22:13:20.000Z''"
    by (simp add: ts dn tn c)
  from timestamp_normalization [where env = sample_env and fs = ?iso and authId = sample_auth
      and w = world0] vi a
  have 6: "\<exists>d. calls (snd (ingest_handler sample_env sample_auth (JObj ?iso) world0)) = [d]
         \<and> document.timestamp d = ''2024-02-29T12:00:00.000Z''"
    by (simp add: ts c)
  from timestamp_normalization [where env = sample_env and fs = ?none and authId = sample_auth
      and w = ?w] vv a
  have 7: "\<exists>d. calls (snd (ingest_handler sample_env sample_auth (JObj ?none) ?w)) = [d]
         \<and> document.timestamp d = ''2023-11-14T22:14:20.000Z''"
    by (simp add: ts tc c)
  from timestamp_normalization [where env = sample_env and fs = ?big and authId = sample_auth
      and w = world0] vb a
  have 8: "ingest_handler sample_env sample_auth (JObj ?big) world0 =
       (ErrorJson 500 ''Internal server error'' ''INGESTION_ERROR'' None, world0)"
    by (simp add: ts db)
  let ?unsafe = "sample_env\<lparr>joi_number_from_string := \<lambda>s. Some (Inl ''number.unsafe'')\<rparr>"
  have i: "joi_isoDate sample_env ''2024-02-29T12:00:00.000Z'' = Some ''2024-02-29T12:00:00.000Z''"
    "joi_isoDate sample_env ''1700000000'' = None"
    "joi_isoDate sample_env ''yesterday'' = None"
    "joi_isoDate ?unsafe ''1700000000.0000000000001'' = None"
    by code_simp+
  have cv: "joi_number_from_string sample_env ''1700000000'' = Some (Inr 1700000000)"
    "joi_number_from_string sample_env ''yesterday'' = None"
    "joi_number_from_string ?unsafe ''1700000000.0000000000001'' = Some (Inl ''number.unsafe'')"
    by code_simp+
  have 9: "schema_timestamp sample_env (Some (JStr ''2024-02-29T12:00:00.000Z'')) =
       Inr (Some (TsString ''2024-02-29T12:00:00.000Z''))"
    using timestamp_normalization [where env = sample_env and s = "''2024-02-29T12:00:00.000Z''"
        and t = "''2024-02-29T12:00:00.000Z''"] i(1)
    by simp
  have 10: "schema_timestamp sample_env (Some (JStr ''1700000000'')) = Inr (Some (TsNumber 1700000000))"
    using timestamp_normalization [where env = sample_env and s = "''1700000000''"
        and c = 1700000000] i(2) cv(1)
    by simp
  have 11: "schema_timestamp sample_env (Some (JStr ''yesterday'')) = Inl ''string.isoDate''"
    using timestamp_normalization [where env = sample_env and s = "''yesterday''"] i(3) cv(2)
    by simp
  have 12: "schema_timestamp ?unsafe (Some (JStr ''1700000000.0000000000001'')) =
       Inl ''alternatives.match''"
    using timestamp_normalization [where env = ?unsafe and s = "''1700000000.0000000000001''"]
      i(4) cv(3)
    by simp
  have m: "map_of [(''readings'', JArr [JObj ?neg])] ''readings'' = Some (JArr [JObj ?neg])
      \<and> JObj ?neg \<in> set [JObj ?neg]"
    by simp
  note rejected = timestamp_normalization [where env = sample_env and fs = ?neg
      and authId = sample_auth and w = world0,
      THEN conjunct2, THEN conjunct2, THEN conjunct2, THEN conjunct2, THEN conjunct2,
      THEN conjunct2, THEN conjunct2, THEN conjunct2, THEN conjunct2, THEN conjunct2,
      THEN conjunct1]
  from rejected [rule_format,
      OF \<open>schema_timestamp sample_env (map_of ?neg ''timestamp'') = Inl ''number.positive''\<close>,
      THEN conjunct2, rule_format, OF m]
  have 13: "\<exists>e. ingest_bulk_handler sample_env sample_auth
             (JObj [(''readings'', JArr [JObj ?neg])]) world0 =
           (ErrorJson 400 ''Invalid bulk telemetry data'' ''VALIDATION_ERROR'' (Some [e]), world0)" .
  from timestamp_normalization [where env = sample_env and authId = sample_auth and w = world0
      and r = "?r (Some (TsNumber 1700000000)) None"] a
  have 14: "\<exists>d. calls (snd (bulk_item sample_env sample_auth
               (?r (Some (TsNumber 1700000000)) None) world0)) = [d]
         \<and> document.timestamp d = ''2023-11-14T22:13:20.000Z''"
    by (simp add: ts dn tn c)
  from timestamp_normalization [where env = sample_env]
  have "\<forall>k. 0 < k \<and> k \<le> 8640000000000 \<longrightarrow>
          new_Date (js_times (of_int k) 1000) = Some (k * 1000)"
    by blast
  from this [rule_format, of 1700000000]
  have 15: "new_Date (js_times 1700000000 1000) = Some 1700000000000"
    by simp
  from 1 2 3 4 5 6 7 8 9 10 11 12 13 14 15 show ?thesis by (intro conjI)
qed

text \<open>
  The claim as the specification words it fails on the code: one day before the epoch is
  a numeric timestamp, and an instant with an ISO text, yet the request is answered with
  400 and nothing is handed to the store.
\<close>

theorem negative_timestamp_counterexample:
  "iso_string (- 86400 * 1000) = ''1969-12-31T00:00:00.000Z''
   \<and> ingest_handler sample_env sample_auth
        (JObj (sample_fields [(''timestamp'', JNum (- 86400))])) world0 =
       (ErrorJson 400 ''Invalid telemetry data'' ''VALIDATION_ERROR''
          (Some [JoiError [Key ''timestamp''] ''number.positive'']), world0)
   \<and> calls (snd (ingest_handler sample_env sample_auth
                   (JObj (sample_fields [(''timestamp'', JNum (- 86400))])) world0)) = []"
proof -
  have 1: "iso_string (- 86400 * 1000) = ''1969-12-31T00:00:00.000Z''"
    by code_simp
  have 2: "ingest_handler sample_env sample_auth
        (JObj (sample_fields [(''timestamp'', JNum (- 86400))])) world0 =
       (ErrorJson 400 ''Invalid telemetry data'' ''VALIDATION_ERROR''
          (Some [JoiError [Key ''timestamp''] ''number.positive'']), world0)"
    by code_simp
  have 3: "calls (snd (ingest_handler sample_env sample_auth
                   (JObj (sample_fields [(''timestamp'', JNum (- 86400))])) world0)) = []"
    unfolding 2 by (simp add: world0_def)
  from 1 2 3 show ?thesis by (intro conjI)
qed

text \<open>
  The errors that Joi's alternatives choose, on sample values: a string that converts to
  zero, the empty string, a string that is neither a date nor a number, and a boolean.
\<close>

lemma timestamp_rejections:
  "schema_timestamp sample_env (Some (JStr ''0'')) = Inl ''alternatives.match''"
  "schema_timestamp sample_env (Some (JStr [])) = Inl ''string.empty''"
  "schema_timestamp sample_env (Some (JStr ''yesterday'')) = Inl ''string.isoDate''"
  "schema_timestamp sample_env (Some (JBool True)) = Inl ''alternatives.types''"
  "schema_timestamp sample_env (Some (JNum 9007199254740993)) = Inl ''number.unsafe''"
  by code_simp+

section \<open>The bulk response\<close>

text \<open>
  Claim C9. For a bulk body that passes the batch schema, whatever the readings do, the
  response has the status 201 and \<^verbatim>\<open>success: true\<close>, and carries both counts:
  \<open>processed\<close> is the length of the result list, and with \<open>failed\<close> it adds up to the
  number of readings. The failure list is there exactly when \<open>failed\<close> is not zero, and
  then has \<open>failed\<close> entries; for \<open>failed = 0\<close> the key \<^verbatim>\<open>errors\<close> is
  \<^verbatim>\<open>undefined\<close>, that is, absent from the JSON text.
\<close>

theorem bulk_response_shape:
  assumes "bulkTelemetrySchema env body = Inr rs"
  shows "\<exists>processed failed results errors w'.
           ingest_bulk_handler env authId body w =
             (BulkJson 201 True processed failed results errors, w')
           \<and> processed = length results
           \<and> processed + failed = length rs
           \<and> (errors = None \<longleftrightarrow> failed = 0)
           \<and> (\<forall>es. errors = Some es \<longrightarrow> length es = failed)"
proof -
  obtain res errs w' where loop: "bulk_loop env authId rs [] [] w = ((res, errs), w')"
    by (metis prod.exhaust)
  let ?out = "bulk_outcomes env authId rs w"
  from bulk_loop_outcomes [of env authId rs "[]" "[]" w] loop
  have res: "res = [x. Inr x \<leftarrow> ?out]" and errs: "errs = [f. Inl f \<leftarrow> ?out]" by simp_all
  have sum: "length res + length errs = length rs"
    using successes_failures_length [of ?out] length_bulk_outcomes [of env authId rs w] res errs
    by simp
  have "ingest_bulk_handler env authId body w =
          (BulkJson 201 True (length res) (length errs) res
             (if length errs > 0 then Some errs else None), w')"
    using assms loop by (simp add: ingest_bulk_handler_def)
  with sum show ?thesis by auto
qed

theorem bulk_response_shape_witness:
  "bulkTelemetrySchema sample_env sample_batch_foreign =
     Inr [sample_reading ''esp-2'' ''flow'' 3 None None, sample_reading ''esp-3'' ''ph'' 7 None None]
   \<and> (\<exists>processed failed results errors w'.
         ingest_bulk_handler sample_env sample_auth sample_batch_foreign world0 =
           (BulkJson 201 True processed failed results errors, w')
         \<and> processed = length results
         \<and> processed + failed =
             length [sample_reading ''esp-2'' ''flow'' 3 None None,
                     sample_reading ''esp-3'' ''ph'' 7 None None]
         \<and> (errors = None \<longleftrightarrow> failed = 0)
         \<and> (\<forall>es. errors = Some es \<longrightarrow> length es = failed))
   \<and> ingest_bulk_handler sample_env sample_auth sample_batch_foreign world0 =
       (BulkJson 201 True 0 2 []
          (Some [Failure (sample_reading ''esp-2'' ''flow'' 3 None None) ''Device ID mismatch'',
                 Failure (sample_reading ''esp-3'' ''ph'' 7 None None) ''Device ID mismatch'']),
        world0)
   \<and> fst (ingest_bulk_handler sample_env sample_auth sample_batch_single world0) =
       BulkJson 201 True 1 0 [Result ''doc000'' ''2023-11-14T22:13:20.000Z'' ''flow''] None"
proof -
  note h = sample_batch_foreign_valid
  have a: "ingest_bulk_handler sample_env sample_auth sample_batch_foreign world0 =
       (BulkJson 201 True 0 2 []
          (Some [Failure (sample_reading ''esp-2'' ''flow'' 3 None None) ''Device ID mismatch'',
                 Failure (sample_reading ''esp-3'' ''ph'' 7 None None) ''Device ID mismatch'']),
        world0)"
    by code_simp
  have b: "fst (ingest_bulk_handler sample_env sample_auth sample_batch_single world0) =
       BulkJson 201 True 1 0 [Result ''doc000'' ''2023-11-14T22:13:20.000Z'' ''flow''] None"
    by code_simp
  show ?thesis
    by (rule conjI [OF h conjI [OF bulk_response_shape [OF h, of sample_auth world0] conjI [OF a b]]])
qed

section \<open>Verifying a token\<close>

lemma missing_token:
  "hdr = None \<or> (\<exists>parts. hdr = Some parts \<and> (length parts \<le> 1 \<or> parts ! 1 = Plain [])) \<Longrightarrow>
     authenticateToken env hdr w =
       (Inl (ErrorJson 401 ''Access token required'' ''MISSING_TOKEN'' None), w)"
  by (auto simp: authenticateToken_def Let_def)

lemma jwt_verify_expired:
  "map_of payload ''exp'' = Some (JNum x) \<Longrightarrow> x \<le> of_int (clock env (clock_reads w) div 1000) \<Longrightarrow>
     \<exists>err. fst (jwt_verify env (Compact (Jwt payload k)) secret w) = Inl err"
  by (auto simp: jwt_verify_def Date_now_def Let_def split: option.splits json.splits)

lemma jwt_verify_signature:
  "secret \<noteq> Some k \<Longrightarrow>
     \<exists>err. fst (jwt_verify env (Compact (Jwt payload k)) secret w) = Inl err"
  by (auto simp: jwt_verify_def Date_now_def Let_def split: option.splits json.splits)

lemma authenticateToken_invalid:
  assumes "hdr = Some parts" "1 < length parts" "parts ! 1 = Compact (Jwt payload k)"
    and "fst (jwt_verify env (Compact (Jwt payload k)) (JWT_SECRET env) w) = Inl err"
  shows "fst (authenticateToken env hdr w) =
           Inl (ErrorJson 403 ''Invalid or expired token'' ''INVALID_TOKEN'' None)"
  using assms by (auto simp: authenticateToken_def Let_def split: prod.splits sum.splits)

text \<open>
  Claim C8. A request with no bearer token (no \<^verbatim>\<open>Authorization\<close> header, or no
  second part in it, or an empty one) is answered with 401 and the code MISSING_TOKEN. A
  presented token whose expiry is not after the clock's second, or whose signing key is
  not the gateway's key, is answered with 403 and the code INVALID_TOKEN. The middleware
  has no other error response.
\<close>

theorem token_rejection:
  "(hdr = None \<or> (\<exists>ps. hdr = Some ps \<and> (length ps \<le> 1 \<or> ps ! 1 = Plain [])) \<longrightarrow>
      authenticateToken env hdr w =
        (Inl (ErrorJson 401 ''Access token required'' ''MISSING_TOKEN'' None), w))
   \<and> (1 < length parts \<and> parts ! 1 = Compact (Jwt payload k)
        \<and> ((\<exists>x. map_of payload ''exp'' = Some (JNum x)
                 \<and> x \<le> of_int (clock env (clock_reads w) div 1000))
            \<or> JWT_SECRET env \<noteq> Some k) \<longrightarrow>
        fst (authenticateToken env (Some parts) w) =
          Inl (ErrorJson 403 ''Invalid or expired token'' ''INVALID_TOKEN'' None))
   \<and> (\<forall>r. fst (authenticateToken env hdr w) = Inl r \<longrightarrow>
        r = ErrorJson 401 ''Access token required'' ''MISSING_TOKEN'' None
        \<or> r = ErrorJson 403 ''Invalid or expired token'' ''INVALID_TOKEN'' None)"
proof -
  have 1: "hdr = None \<or> (\<exists>ps. hdr = Some ps \<and> (length ps \<le> 1 \<or> ps ! 1 = Plain [])) \<longrightarrow>
      authenticateToken env hdr w =
        (Inl (ErrorJson 401 ''Access token required'' ''MISSING_TOKEN'' None), w)"
    using missing_token [of hdr env w] by blast
  have 2: "fst (authenticateToken env (Some parts) w) =
          Inl (ErrorJson 403 ''Invalid or expired token'' ''INVALID_TOKEN'' None)"
    if h: "1 < length parts" "parts ! 1 = Compact (Jwt payload k)"
      and bad: "(\<exists>x. map_of payload ''exp'' = Some (JNum x)
                 \<and> x \<le> of_int (clock env (clock_reads w) div 1000))
            \<or> JWT_SECRET env \<noteq> Some k"
  proof -
    from bad obtain err where
      "fst (jwt_verify env (Compact (Jwt payload k)) (JWT_SECRET env) w) = Inl err"
      using jwt_verify_expired [of payload _ env w k "JWT_SECRET env"]
        jwt_verify_signature [of "JWT_SECRET env" k env payload w] by blast
    from authenticateToken_invalid [OF refl h this] show ?thesis .
  qed
  have 3: "r = ErrorJson 401 ''Access token required'' ''MISSING_TOKEN'' None
        \<or> r = ErrorJson 403 ''Invalid or expired token'' ''INVALID_TOKEN'' None"
    if "fst (authenticateToken env hdr w) = Inl r" for r
    using that authenticateToken_Inl [of env hdr w r "snd (authenticateToken env hdr w)"]
    by (metis prod.collapse)
  from 1 2 3 show ?thesis by blast
qed

theorem token_rejection_witness:
  "authenticateToken sample_env None world0 =
     (Inl (ErrorJson 401 ''Access token required'' ''MISSING_TOKEN'' None), world0)
   \<and> authenticateToken sample_env (Some [Plain ''Bearer'']) world0 =
     (Inl (ErrorJson 401 ''Access token required'' ''MISSING_TOKEN'' None), world0)
   \<and> fst (authenticateToken sample_env sample_header (world0\<lparr>clock_reads := 3600000\<rparr>)) =
       Inl (ErrorJson 403 ''Invalid or expired token'' ''INVALID_TOKEN'' None)
   \<and> fst (authenticateToken sample_env (Some [Plain ''Bearer'', sample_forged_token]) world0) =
       Inl (ErrorJson 403 ''Invalid or expired token'' ''INVALID_TOKEN'' None)"
proof -
  let ?late = "world0\<lparr>clock_reads := 3600000\<rparr>"
  let ?payload = "[(''deviceId'', JStr ''esp-1''), (''type'', JStr ''device''),
                   (''iat'', JNum 1700000000), (''exp'', JNum 1700003600)]"
  have m1: "None = None \<or> (\<exists>ps. None = Some ps \<and> (length ps \<le> 1 \<or> ps ! 1 = Plain []))"
    by simp
  have 1: "authenticateToken sample_env None world0 =
     (Inl (ErrorJson 401 ''Access token required'' ''MISSING_TOKEN'' None), world0)"
    by (rule mp [OF conjunct1 [OF token_rejection [where hdr = None]] m1])
  have m2: "Some [Plain ''Bearer''] = None
      \<or> (\<exists>ps. Some [Plain ''Bearer''] = Some ps \<and> (length ps \<le> 1 \<or> ps ! 1 = Plain []))"
    by simp
  have 2: "authenticateToken sample_env (Some [Plain ''Bearer'']) world0 =
     (Inl (ErrorJson 401 ''Access token required'' ''MISSING_TOKEN'' None), world0)"
    by (rule mp [OF conjunct1 [OF token_rejection [where hdr = "Some [Plain ''Bearer'']"]] m2])
  have late: "clock sample_env (clock_reads ?late) div 1000 = 1700003600"
    by (simp add: sample_env_def world0_def)
  have e: "1 < length [Plain ''Bearer'', Compact (Jwt ?payload ''signing-key'')]
      \<and> [Plain ''Bearer'', Compact (Jwt ?payload ''signing-key'')] ! 1
          = Compact (Jwt ?payload ''signing-key'')
      \<and> ((\<exists>x. map_of ?payload ''exp'' = Some (JNum x)
               \<and> x \<le> of_int (clock sample_env (clock_reads ?late) div 1000))
          \<or> JWT_SECRET sample_env \<noteq> Some ''signing-key'')"
    unfolding late by simp
  have 3: "fst (authenticateToken sample_env sample_header ?late) =
       Inl (ErrorJson 403 ''Invalid or expired token'' ''INVALID_TOKEN'' None)"
    unfolding sample_header_def sample_token_def
    by (rule mp [OF conjunct1 [OF conjunct2 [OF token_rejection]] e])
  have key: "JWT_SECRET sample_env \<noteq> Some ''another-key''"
    by (simp add: sample_env_def)
  have f: "1 < length [Plain ''Bearer'', Compact (Jwt ?payload ''another-key'')]
      \<and> [Plain ''Bearer'', Compact (Jwt ?payload ''another-key'')] ! 1
          = Compact (Jwt ?payload ''another-key'')
      \<and> ((\<exists>x. map_of ?payload ''exp'' = Some (JNum x)
               \<and> x \<le> of_int (clock sample_env (clock_reads world0) div 1000))
          \<or> JWT_SECRET sample_env \<noteq> Some ''another-key'')"
    using key by simp
  have 4: "fst (authenticateToken sample_env (Some [Plain ''Bearer'', sample_forged_token]) world0) =
       Inl (ErrorJson 403 ''Invalid or expired token'' ''INVALID_TOKEN'' None)"
    unfolding sample_forged_token_def
    by (rule mp [OF conjunct1 [OF conjunct2 [OF token_rejection]] f])
  from 1 2 3 4 show ?thesis by (intro conjI)
qed

section \<open>Issuing a token\<close>

lemma property_falsy: "\<not> truthy body \<Longrightarrow> property body k = None"
  by (cases body rule: truthy.cases) (simp_all add: property_def)

lemma property_body:
  "property (if truthy body then body else Some (JObj [])) k = property body k"
  by (simp add: property_falsy) (simp add: property_def)

lemma truthy_Some: "truthy v \<Longrightarrow> \<exists>j. v = Some j"
  by (cases v) simp_all

lemma jwt_sign_ok:
  assumes "k \<noteq> []" and "ms env x = Some l"
  shows "jwt_sign env
           (object_literal [(''deviceId'', Some j), (''type'', Some (JStr ''device'')),
                            (''iat'', Some (JNum (of_int i)))]) (Some k) x =
         Inr (Compact (Jwt [(''deviceId'', j), (''type'', JStr ''device''),
                            (''iat'', JNum (of_int i)),
                            (''exp'', JNum (of_int (i + \<lfloor>l / 1000\<rfloor>)))] k))"
  using assms by (simp add: jwt_sign_def object_literal_def)

lemma jwt_sign_Inr:
  assumes "jwt_sign env
           (object_literal [(''deviceId'', Some j), (''type'', Some (JStr ''device'')),
                            (''iat'', Some (JNum (of_int i)))]) secret x = Inr tok"
  shows "\<exists>k l. secret = Some k \<and> k \<noteq> [] \<and> ms env x = Some l
           \<and> tok = Compact (Jwt [(''deviceId'', j), (''type'', JStr ''device''),
                                  (''iat'', JNum (of_int i)),
                                  (''exp'', JNum (of_int (i + \<lfloor>l / 1000\<rfloor>)))] k)"
  using assms by (auto simp: jwt_sign_def object_literal_def split: option.splits if_splits)

text \<open>The exits of the token handler, in the order of the source.\<close>

lemma auth_token_missing:
  "\<not> truthy (property body ''deviceId'') \<or> \<not> truthy (property body ''deviceSecret'') \<Longrightarrow>
     auth_token env body w =
       (ErrorJson 400 ''Device ID and secret are required'' ''MISSING_CREDENTIALS'' None, w)"
  by (auto simp: auth_token_def Let_def property_body)

lemma auth_token_throws:
  "truthy (property body ''deviceId'') \<Longrightarrow> truthy (property body ''deviceSecret'') \<Longrightarrow>
   ToString (Number_toString env) (property body ''deviceId'') = None \<Longrightarrow>
     auth_token env body w =
       (ErrorJson 500 ''Internal server error'' ''TOKEN_GENERATION_ERROR'' None, w)"
  by (auto simp: auth_token_def Let_def property_body)

lemma auth_token_invalid:
  "truthy (property body ''deviceId'') \<Longrightarrow> truthy (property body ''deviceSecret'') \<Longrightarrow>
   ToString (Number_toString env) (property body ''deviceId'') = Some t \<Longrightarrow>
   property body ''deviceSecret'' \<noteq> Some (JStr (env_or (DEVICE_SECRET_PREFIX env) [] @ t)) \<Longrightarrow>
     auth_token env body w =
       (ErrorJson 401 ''Invalid device credentials'' ''INVALID_CREDENTIALS'' None, w)"
  by (auto simp: auth_token_def Let_def property_body)

lemma auth_token_sign:
  assumes "property body ''deviceId'' = Some j" and "truthy (Some j)"
    and "ToString (Number_toString env) (Some j) = Some t"
    and "property body ''deviceSecret'' = Some (JStr (env_or (DEVICE_SECRET_PREFIX env) [] @ t))"
    and "truthy (property body ''deviceSecret'')"
  shows "fst (auth_token env body w) =
           (case jwt_sign env
                   (object_literal [(''deviceId'', Some j), (''type'', Some (JStr ''device'')),
                                    (''iat'', Some (JNum (of_int (clock env (clock_reads w) div 1000))))])
                   (JWT_SECRET env) (env_or (JWT_EXPIRES_IN env) ''15m'') of
              Inl e \<Rightarrow> ErrorJson 500 ''Internal server error'' ''TOKEN_GENERATION_ERROR'' None
            | Inr token \<Rightarrow> TokenJson 200 token 900 ''Bearer'')"
  using assms
  by (auto simp: auth_token_def Let_def property_body Date_now_def split: sum.splits)

lemma ToString_string: "ToString num (Some (JStr d)) = Some d"
  by (simp add: ToString_def)



text \<open>
  A device id that is no string is outside the claim. One such body: the device id is an
  object with a key \<^verbatim>\<open>toString\<close>, the concatenation throws, and the answer is 500
  whatever the secret is.
\<close>

lemma device_id_object_with_toString:
  "auth_token sample_env
     (Some (JObj [(''deviceId'', JObj [(''toString'', JNum 1)]), (''deviceSecret'', JStr ''x'')]))
     world0 =
     (ErrorJson 500 ''Internal server error'' ''TOKEN_GENERATION_ERROR'' None, world0)"
  by code_simp

lemma authenticateToken_issued:
  "authenticateToken env
     (Some [Plain ''Bearer'',
            Compact (Jwt [(''deviceId'', j), (''type'', JStr ''device''),
                          (''iat'', JNum (of_int i)), (''exp'', JNum (of_int x))] k)]) w2 =
     (if JWT_SECRET env = Some k \<and> k \<noteq> [] \<and> clock env (clock_reads w2) div 1000 < x
      then Inr (Auth (Some j) (Some (JNum (of_int x))))
      else Inl (ErrorJson 403 ''Invalid or expired token'' ''INVALID_TOKEN'' None),
      snd (Date_now env w2))"
  by (auto simp: authenticateToken_def jwt_verify_def Date_now_def Let_def)

text \<open>
  Claim C3. In a gateway with a signing key and a readable token lifetime, for every
  non-empty device id: the token request with the secret made of the prefix and the
  device id is answered with a token, and presenting that token as the bearer gives back
  exactly that device id (and the token's expiry) for as long as the token has not
  expired; from its expiry on, the answer is 403 INVALID_TOKEN. No verification of the
  issued token yields another device id.
\<close>

theorem token_round_trip:
  assumes "JWT_SECRET env = Some k" and "k \<noteq> []"
    and "ms env (env_or (JWT_EXPIRES_IN env) ''15m'') = Some l"
    and "d \<noteq> []"
    and "property body ''deviceId'' = Some (JStr d)"
    and "property body ''deviceSecret'' = Some (JStr (env_or (DEVICE_SECRET_PREFIX env) [] @ d))"
  shows "\<exists>token. fst (auth_token env body w) = TokenJson 200 token 900 ''Bearer''
           \<and> (\<forall>w2. fst (authenticateToken env (Some [Plain ''Bearer'', token]) w2) =
                 (if clock env (clock_reads w2) div 1000
                       < clock env (clock_reads w) div 1000 + \<lfloor>l / 1000\<rfloor>
                  then Inr (Auth (Some (JStr d))
                              (Some (JNum (of_int (clock env (clock_reads w) div 1000 + \<lfloor>l / 1000\<rfloor>)))))
                  else Inl (ErrorJson 403 ''Invalid or expired token'' ''INVALID_TOKEN'' None)))"
proof -
  let ?iat = "clock env (clock_reads w) div 1000"
  let ?token = "Compact (Jwt [(''deviceId'', JStr d), (''type'', JStr ''device''),
                              (''iat'', JNum (of_int ?iat)),
                              (''exp'', JNum (of_int (?iat + \<lfloor>l / 1000\<rfloor>)))] k)"
  have "fst (auth_token env body w) =
           (case jwt_sign env
                   (object_literal [(''deviceId'', Some (JStr d)), (''type'', Some (JStr ''device'')),
                                    (''iat'', Some (JNum (of_int ?iat)))])
                   (JWT_SECRET env) (env_or (JWT_EXPIRES_IN env) ''15m'') of
              Inl e \<Rightarrow> ErrorJson 500 ''Internal server error'' ''TOKEN_GENERATION_ERROR'' None
            | Inr token \<Rightarrow> TokenJson 200 token 900 ''Bearer'')"
    using assms(4,5,6) by (intro auth_token_sign [where t = d]) (simp_all add: ToString_string)
  with jwt_sign_ok [OF assms(2,3), of "JStr d" ?iat] assms(1)
  have issued: "fst (auth_token env body w) = TokenJson 200 ?token 900 ''Bearer''" by simp
  have "fst (authenticateToken env (Some [Plain ''Bearer'', ?token]) w2) =
                 (if clock env (clock_reads w2) div 1000 < ?iat + \<lfloor>l / 1000\<rfloor>
                  then Inr (Auth (Some (JStr d)) (Some (JNum (of_int (?iat + \<lfloor>l / 1000\<rfloor>)))))
                  else Inl (ErrorJson 403 ''Invalid or expired token'' ''INVALID_TOKEN'' None))" for w2
    using assms(1,2)
      authenticateToken_issued [of env "JStr d" ?iat "?iat + \<lfloor>l / 1000\<rfloor>" k w2]
    by (simp del: of_int_add)
  with issued show ?thesis by blast
qed

theorem token_round_trip_witness:
  "JWT_SECRET sample_env = Some ''signing-key'' \<and> ''signing-key'' \<noteq> []
   \<and> ms sample_env (env_or (JWT_EXPIRES_IN sample_env) ''15m'') = Some 3600000
   \<and> ''esp-1'' \<noteq> []
   \<and> property (sample_credentials ''esp-1'' ''aqua-esp-1'') ''deviceId'' = Some (JStr ''esp-1'')
   \<and> property (sample_credentials ''esp-1'' ''aqua-esp-1'') ''deviceSecret'' =
       Some (JStr (env_or (DEVICE_SECRET_PREFIX sample_env) [] @ ''esp-1''))
   \<and> (\<exists>token. fst (auth_token sample_env (sample_credentials ''esp-1'' ''aqua-esp-1'') world0) =
                 TokenJson 200 token 900 ''Bearer''
         \<and> fst (authenticateToken sample_env (Some [Plain ''Bearer'', token])
                  (world0\<lparr>clock_reads := 3599999\<rparr>)) =
             Inr (Auth (Some (JStr ''esp-1'')) (Some (JNum 1700003600)))
         \<and> fst (authenticateToken sample_env (Some [Plain ''Bearer'', token])
                  (world0\<lparr>clock_reads := 3600000\<rparr>)) =
             Inl (ErrorJson 403 ''Invalid or expired token'' ''INVALID_TOKEN'' None))"
proof -
  have k: "''signing-key'' \<noteq> []" and d: "''esp-1'' \<noteq> []" by simp_all
  have s: "property (sample_credentials ''esp-1'' ''aqua-esp-1'') ''deviceSecret'' =
       Some (JStr (env_or (DEVICE_SECRET_PREFIX sample_env) [] @ ''esp-1''))"
    by (simp add: sample_credentials_properties sample_env_configured(3))
  note p = sample_credentials_properties(1) [of "''esp-1''" "''aqua-esp-1''"]
  from token_round_trip [OF sample_env_configured(1) k sample_env_configured(2) d p s, of world0]
  obtain token where
    i: "fst (auth_token sample_env (sample_credentials ''esp-1'' ''aqua-esp-1'') world0) =
          TokenJson 200 token 900 ''Bearer''"
    and v: "\<And>w2. fst (authenticateToken sample_env (Some [Plain ''Bearer'', token]) w2) =
                 (if clock sample_env (clock_reads w2) div 1000
                       < clock sample_env (clock_reads world0) div 1000 + \<lfloor>3600000 / 1000 :: rat\<rfloor>
                  then Inr (Auth (Some (JStr ''esp-1''))
                              (Some (JNum (of_int (clock sample_env (clock_reads world0) div 1000
                                                     + \<lfloor>3600000 / 1000 :: rat\<rfloor>)))))
                  else Inl (ErrorJson 403 ''Invalid or expired token'' ''INVALID_TOKEN'' None))"
    by blast
  have c: "clock sample_env (clock_reads world0) div 1000 = 1700000000"
    "clock sample_env (clock_reads (world0\<lparr>clock_reads := 3599999\<rparr>)) div 1000 = 1700003599"
    "clock sample_env (clock_reads (world0\<lparr>clock_reads := 3600000\<rparr>)) div 1000 = 1700003600"
    by (simp_all add: sample_env_def world0_def)
  have f: "\<lfloor>3600000 / 1000 :: rat\<rfloor> = 3600" by simp
  have 1: "fst (authenticateToken sample_env (Some [Plain ''Bearer'', token])
                  (world0\<lparr>clock_reads := 3599999\<rparr>)) =
             Inr (Auth (Some (JStr ''esp-1'')) (Some (JNum 1700003600)))"
    unfolding v c f by simp
  have 2: "fst (authenticateToken sample_env (Some [Plain ''Bearer'', token])
                  (world0\<lparr>clock_reads := 3600000\<rparr>)) =
             Inl (ErrorJson 403 ''Invalid or expired token'' ''INVALID_TOKEN'' None)"
    unfolding v c f by simp
  from i 1 2 have "\<exists>token. fst (auth_token sample_env (sample_credentials ''esp-1'' ''aqua-esp-1'') world0) =
                 TokenJson 200 token 900 ''Bearer''
         \<and> fst (authenticateToken sample_env (Some [Plain ''Bearer'', token])
                  (world0\<lparr>clock_reads := 3599999\<rparr>)) =
             Inr (Auth (Some (JStr ''esp-1'')) (Some (JNum 1700003600)))
         \<and> fst (authenticateToken sample_env (Some [Plain ''Bearer'', token])
                  (world0\<lparr>clock_reads := 3600000\<rparr>)) =
             Inl (ErrorJson 403 ''Invalid or expired token'' ''INVALID_TOKEN'' None)"
    by blast
  with sample_env_configured(1) k sample_env_configured(2) d p s show ?thesis
    by (intro conjI)
qed

lemma auth_token_TokenJson:
  assumes "fst (auth_token env body w) = TokenJson status token expiry tokenType"
  shows "\<exists>j k l. property body ''deviceId'' = Some j
           \<and> ms env (env_or (JWT_EXPIRES_IN env) ''15m'') = Some l
           \<and> status = 200 \<and> expiry = 900 \<and> tokenType = ''Bearer''
           \<and> token = Compact (Jwt [(''deviceId'', j), (''type'', JStr ''device''),
                 (''iat'', JNum (of_int (clock env (clock_reads w) div 1000))),
                 (''exp'', JNum (of_int (clock env (clock_reads w) div 1000 + \<lfloor>l / 1000\<rfloor>)))] k)"
proof -
  let ?did = "property body ''deviceId''"
  let ?secret = "property body ''deviceSecret''"
  have t: "truthy ?did \<and> truthy ?secret"
  proof (rule ccontr)
    assume "\<not> (truthy ?did \<and> truthy ?secret)"
    then have "\<not> truthy ?did \<or> \<not> truthy ?secret" by blast
    from auth_token_missing [OF this, of env w] assms show False by simp
  qed
  obtain x where x: "ToString (Number_toString env) ?did = Some x"
  proof (cases "ToString (Number_toString env) ?did")
    case None
    with t auth_token_throws [of body env w] assms show ?thesis by simp
  next
    case (Some x)
    then show ?thesis by (rule that)
  qed
  have e: "?secret = Some (JStr (env_or (DEVICE_SECRET_PREFIX env) [] @ x))"
  proof (rule ccontr)
    assume "?secret \<noteq> Some (JStr (env_or (DEVICE_SECRET_PREFIX env) [] @ x))"
    with t x auth_token_invalid [of body env x w] assms show False by simp
  qed
  obtain j where j: "?did = Some j" using truthy_Some [of ?did] t by blast
  let ?sign = "jwt_sign env
                   (object_literal [(''deviceId'', Some j), (''type'', Some (JStr ''device'')),
                                    (''iat'', Some (JNum (of_int (clock env (clock_reads w) div 1000))))])
                   (JWT_SECRET env) (env_or (JWT_EXPIRES_IN env) ''15m'')"
  from t e j x have f: "fst (auth_token env body w) =
           (case ?sign of
              Inl e \<Rightarrow> ErrorJson 500 ''Internal server error'' ''TOKEN_GENERATION_ERROR'' None
            | Inr token \<Rightarrow> TokenJson 200 token 900 ''Bearer'')"
    by (intro auth_token_sign [where t = x]) simp_all
  with assms obtain tok where tok: "?sign = Inr tok" "token = tok"
    "status = 200" "expiry = 900" "tokenType = ''Bearer''"
    by (cases ?sign) auto
  from jwt_sign_Inr [OF tok(1)] tok j show ?thesis by auto
qed

text \<open>
  Claim C10. Whenever a token is issued, the \<^verbatim>\<open>expiresIn\<close> of the response is 900.
  The token itself expires \<open>\<lfloor>l / 1000\<rfloor>\<close> seconds after its \<^verbatim>\<open>iat\<close>, with \<open>l\<close>
  the configured lifetime in milliseconds; when that is not 900 seconds, the reported
  \<^verbatim>\<open>expiresIn\<close> is not the lifetime of the token.
\<close>

theorem expiresIn_constant:
  assumes "fst (auth_token env body w) = TokenJson status token expiry tokenType"
  shows "expiry = 900
         \<and> (\<exists>payload k l iat exp.
               token = Compact (Jwt payload k)
               \<and> ms env (env_or (JWT_EXPIRES_IN env) ''15m'') = Some l
               \<and> map_of payload ''iat'' = Some (JNum (of_int iat))
               \<and> map_of payload ''exp'' = Some (JNum (of_int exp))
               \<and> exp - iat = \<lfloor>l / 1000\<rfloor>
               \<and> (\<lfloor>l / 1000\<rfloor> \<noteq> 900 \<longrightarrow> int expiry \<noteq> exp - iat))"
proof -
  from auth_token_TokenJson [OF assms] obtain j k l where
    l: "ms env (env_or (JWT_EXPIRES_IN env) ''15m'') = Some l"
    and e: "expiry = 900"
    and t: "token = Compact (Jwt [(''deviceId'', j), (''type'', JStr ''device''),
                 (''iat'', JNum (of_int (clock env (clock_reads w) div 1000))),
                 (''exp'', JNum (of_int (clock env (clock_reads w) div 1000 + \<lfloor>l / 1000\<rfloor>)))] k)"
    by blast
  let ?iat = "clock env (clock_reads w) div 1000"
  have "\<exists>payload k l iat exp.
               token = Compact (Jwt payload k)
               \<and> ms env (env_or (JWT_EXPIRES_IN env) ''15m'') = Some l
               \<and> map_of payload ''iat'' = Some (JNum (of_int iat))
               \<and> map_of payload ''exp'' = Some (JNum (of_int exp))
               \<and> exp - iat = \<lfloor>l / 1000\<rfloor>
               \<and> (\<lfloor>l / 1000\<rfloor> \<noteq> 900 \<longrightarrow> int expiry \<noteq> exp - iat)"
    apply (rule exI [of _ "[(''deviceId'', j), (''type'', JStr ''device''),
                 (''iat'', JNum (of_int ?iat)),
                 (''exp'', JNum (of_int (?iat + \<lfloor>l / 1000\<rfloor>)))]"])
    apply (rule exI [of _ k], rule exI [of _ l], rule exI [of _ ?iat])
    apply (rule exI [of _ "?iat + \<lfloor>l / 1000\<rfloor>"])
    using l e t by simp
  with e show ?thesis by blast
qed

theorem expiresIn_constant_witness:
  "fst (auth_token sample_env (sample_credentials ''esp-1'' ''aqua-esp-1'') world0) =
     TokenJson 200 sample_token 900 ''Bearer''
   \<and> (\<exists>payload k iat exp.
         sample_token = Compact (Jwt payload k)
         \<and> map_of payload ''iat'' = Some (JNum (of_int iat))
         \<and> map_of payload ''exp'' = Some (JNum (of_int exp))
         \<and> exp - iat = 3600
         \<and> int 900 \<noteq> exp - iat)"
proof -
  have i: "fst (auth_token sample_env (sample_credentials ''esp-1'' ''aqua-esp-1'') world0) =
     TokenJson 200 sample_token 900 ''Bearer''"
    by code_simp
  from expiresIn_constant [OF i] obtain payload k l iat exp where
    t: "sample_token = Compact (Jwt payload k)"
    and l: "ms sample_env (env_or (JWT_EXPIRES_IN sample_env) ''15m'') = Some l"
    and p: "map_of payload ''iat'' = Some (JNum (of_int iat))"
      "map_of payload ''exp'' = Some (JNum (of_int exp))"
    and e: "exp - iat = \<lfloor>l / 1000\<rfloor>"
      "\<lfloor>l / 1000\<rfloor> \<noteq> 900 \<longrightarrow> int 900 \<noteq> exp - iat"
    by blast
  from l sample_env_configured(2) have "l = 3600000" by simp
  then have "\<lfloor>l / 1000\<rfloor> = 3600" by simp
  with e have "exp - iat = 3600" "int 900 \<noteq> exp - iat" by simp_all
  with t p have "\<exists>payload k iat exp.
         sample_token = Compact (Jwt payload k)
         \<and> map_of payload ''iat'' = Some (JNum (of_int iat))
         \<and> map_of payload ''exp'' = Some (JNum (of_int exp))
         \<and> exp - iat = 3600
         \<and> int 900 \<noteq> exp - iat"
    by blast
  with i show ?thesis by (intro conjI)
qed

end
